theory Spec2Isabelle
  imports Complex_Main
begin

section \<open>Values and errors\<close>

text \<open>
  Python floats are modelled as exact reals: the rounding of binary floating point is
  left out, every other step of the arithmetic is the source's. Where a result hangs on
  the binary value itself, the decimal chosen for an amount that lies on a tie, the model
  takes the choice as a parameter (\<open>tie_rounds_up\<close> below).

  A value of a dictionary that came from JSON or from the exchange is one of:
  \<^item> \<open>Num r\<close>, a number (a JSON boolean counts as 1 or 0);
  \<^item> \<open>IntStr n\<close>, a string that is an integer literal, such as \<open>'10'\<close>;
  \<^item> \<open>FloatStr r\<close>, a string that is a numeric literal but not an integer literal,
    such as \<open>'10.5'\<close>: \<open>float()\<close> accepts it, \<open>int()\<close> raises ValueError;
  \<^item> \<open>Null\<close>, JSON null;
  \<^item> \<open>EmptyStr\<close>, the empty string, and \<open>NonNumStr\<close>, any other string that is not
    a number: \<open>float()\<close> and \<open>int()\<close> raise ValueError;
  \<^item> \<open>EmptyOther\<close>, an empty list or object, and \<open>OtherVal\<close>, a list or object that
    is not empty: \<open>float()\<close> and \<open>int()\<close> raise TypeError.
\<close>

datatype jval =
    Num real | IntStr int | FloatStr real | Null | EmptyStr | NonNumStr | EmptyOther | OtherVal

datatype pyexn =
    KeyError | ValueError | TypeError | ZeroDivisionError | AttributeError
  | OrderException | ExchangeError string

text \<open>\<open>float(v)\<close>\<close>

fun py_float :: "jval \<Rightarrow> pyexn + real" where
  "py_float (Num r) = Inr r"
| "py_float (IntStr n) = Inr (of_int n)"
| "py_float (FloatStr r) = Inr r"
| "py_float Null = Inl TypeError"
| "py_float EmptyStr = Inl ValueError"
| "py_float NonNumStr = Inl ValueError"
| "py_float EmptyOther = Inl TypeError"
| "py_float OtherVal = Inl TypeError"

text \<open>\<open>int(x)\<close> on a float truncates towards zero.\<close>

definition py_int :: "real \<Rightarrow> int" where
  "py_int r = (if 0 \<le> r then \<lfloor>r\<rfloor> else \<lceil>r\<rceil>)"

text \<open>\<open>int(v)\<close>\<close>

fun py_int_of :: "jval \<Rightarrow> pyexn + int" where
  "py_int_of (Num r) = Inr (py_int r)"
| "py_int_of (IntStr n) = Inr n"
| "py_int_of (FloatStr r) = Inl ValueError"
| "py_int_of Null = Inl TypeError"
| "py_int_of EmptyStr = Inl ValueError"
| "py_int_of NonNumStr = Inl ValueError"
| "py_int_of EmptyOther = Inl TypeError"
| "py_int_of OtherVal = Inl TypeError"

text \<open>The truth value of a value: zero, null, the empty string and the empty list or
  object are false.\<close>

fun jtruthy :: "jval \<Rightarrow> bool" where
  "jtruthy (Num r) = (r \<noteq> 0)"
| "jtruthy (IntStr n) = True"
| "jtruthy (FloatStr r) = True"
| "jtruthy Null = False"
| "jtruthy EmptyStr = False"
| "jtruthy NonNumStr = True"
| "jtruthy EmptyOther = False"
| "jtruthy OtherVal = True"

text \<open>Truthiness of an optional float: \<open>None\<close> and \<open>0.0\<close> are false.\<close>

fun truthy :: "real option \<Rightarrow> bool" where
  "truthy None = False"
| "truthy (Some r) = (r \<noteq> 0)"

text \<open>\<open>math.isclose(a, b, rel_tol=t)\<close> with the default \<open>abs_tol = 0\<close>.\<close>

definition isclose :: "real \<Rightarrow> real \<Rightarrow> real \<Rightarrow> bool" where
  "isclose a b rel_tol = (\<bar>a - b\<bar> \<le> rel_tol * max \<bar>a\<bar> \<bar>b\<bar>)"

section \<open>The signal model\<close>

text \<open>
  Modelled from the spec: the classes \<open>EntryZone\<close>, \<open>TakeProfitLevel\<close> and
  \<open>TradingSignal\<close> live in \<open>models.py\<close>, which is not among the sources. Their
  fields are the ones the spec's data model lists and the sources read and write; the
  field names carry a prefix because a record field is a global name.
\<close>

datatype zone_status = PENDING | PLACED | FILLED | CANCELED

record EntryZone =
  zone_price :: real
  zone_percentage :: real
  zone_status :: zone_status
  zone_order_id :: "string option"

record TakeProfitLevel =
  tp_price :: real
  tp_percentage :: real
  is_hit :: bool
  hit_time :: "real option"

record TradingSignal =
  exchange :: string
  symbol :: string
  action :: string
  entry_price :: "real option"
  entry_zones :: "EntryZone list"
  take_profit_levels :: "TakeProfitLevel list"
  stop_loss :: "real option"
  position_size :: real
  leverage :: int
  margin_mode :: string
  confidence :: real
  risk_level :: string
  dynamic_sl :: bool

text \<open>\<open>EntryZone(price=p, percentage=q)\<close> and \<open>TakeProfitLevel(p, q)\<close> with the
  defaults of the remaining fields.\<close>

definition mk_zone :: "real \<Rightarrow> real \<Rightarrow> EntryZone" where
  "mk_zone p q =
     \<lparr>zone_price = p, zone_percentage = q, zone_status = PENDING, zone_order_id = None\<rparr>"

definition mk_tp :: "real \<Rightarrow> real \<Rightarrow> TakeProfitLevel" where
  "mk_tp p q = \<lparr>tp_price = p, tp_percentage = q, is_hit = False, hit_time = None\<rparr>"

text \<open>
  Modelled from the spec: \<open>TradingSignal.is_valid\<close> (in \<open>models.py\<close>). The spec:
  "requires at least one of entry_price/entry_zones, at least one take-profit level, and
  a stop-loss, for any non-CLOSE action".
\<close>

definition is_valid :: "TradingSignal \<Rightarrow> bool" where
  "is_valid s =
     (if action s = ''CLOSE'' then True
      else (if entry_price s = None \<and> entry_zones s = [] then False
            else if take_profit_levels s = [] then False
            else if stop_loss s = None then False
            else True))"

section \<open>trading\_logic.py: from a raw candidate to a signal\<close>

text \<open>
  The raw candidate is the dictionary parsed from the extraction's answer. A field is
  \<open>None\<close> when its key is absent. An entry zone or take-profit item is a dictionary with
  the optional keys \<open>price\<close> and \<open>percentage\<close>; the list itself may be absent, or a
  value that is not a list. The fields \<open>exchange\<close>, \<open>symbol\<close>, \<open>action\<close> are strings.
\<close>

record level_dict =
  d_price :: "jval option"
  d_percentage :: "jval option"

datatype items_field = NotAList | Items "level_dict list"

record candidate =
  c_exchange :: "string option"
  c_symbol :: "string option"
  c_action :: "string option"
  c_entry_zones :: "items_field option"
  c_entry_price :: "jval option"
  c_take_profit_levels :: "items_field option"
  c_take_profit :: "items_field option"
  c_stop_loss :: "jval option"
  c_position_size :: "jval option"
  c_leverage :: "jval option"
  c_confidence :: "jval option"
  c_margin_mode :: "string option"
  c_risk_level :: "string option"

subsection \<open>\<open>_validate_json_data\<close>\<close>

fun has_keys :: "level_dict \<Rightarrow> bool" where
  "has_keys z = (d_price z \<noteq> None \<and> d_percentage z \<noteq> None)"

fun items_ok :: "items_field option \<Rightarrow> bool" where
  "items_ok None = True"
| "items_ok (Some NotAList) = False"
| "items_ok (Some (Items zs)) = list_all has_keys zs"

fun numeric_ok :: "jval option \<Rightarrow> bool" where
  "numeric_ok None = True"
| "numeric_ok (Some v) = (case py_float v of Inr _ \<Rightarrow> True | Inl _ \<Rightarrow> False)"

definition validate_json_data :: "candidate \<Rightarrow> bool" where
  "validate_json_data d =
     (case (c_exchange d, c_symbol d, c_action d) of
        (Some ex, Some sy, Some ac) \<Rightarrow>
          if ex \<notin> set [''BINANCE'', ''OKX''] then False
          else if sy = [] then False
          else if ac \<notin> set [''OPEN_LONG'', ''OPEN_SHORT'', ''CLOSE''] then False
          else if \<not> items_ok (c_entry_zones d) then False
          else if \<not> items_ok (c_take_profit_levels d) then False
          else if \<not> numeric_ok (c_position_size d) then False
          else if \<not> numeric_ok (c_leverage d) then False
          else if \<not> numeric_ok (c_confidence d) then False
          else True
      | _ \<Rightarrow> False)"

subsection \<open>\<open>_normalize_numbers\<close>\<close>

text \<open>
  The two loops replace each item's price and percentage by its \<open>float()\<close>, in place.
  A missing key or a value that \<open>float()\<close> rejects raises; the handler then returns
  the dictionary it was given, whose items are the same objects: the items converted so
  far stay converted, the scalar fields are untouched.
\<close>

text \<open>The loop over one list: the items after it, and whether it raised.\<close>

fun convert_items :: "level_dict list \<Rightarrow> level_dict list \<times> bool" where
  "convert_items [] = ([], False)"
| "convert_items (z # zs) =
     (case d_price z of
        None \<Rightarrow> (z # zs, True)
      | Some pv \<Rightarrow>
          (case py_float pv of
             Inl e \<Rightarrow> (z # zs, True)
           | Inr p \<Rightarrow>
               (case d_percentage z of
                  None \<Rightarrow> (z\<lparr>d_price := Some (Num p)\<rparr> # zs, True)
                | Some qv \<Rightarrow>
                    (case py_float qv of
                       Inl e \<Rightarrow> (z\<lparr>d_price := Some (Num p)\<rparr> # zs, True)
                     | Inr q \<Rightarrow>
                         (case convert_items zs of
                            (zs', raised) \<Rightarrow>
                              (z\<lparr>d_price := Some (Num p), d_percentage := Some (Num q)\<rparr> # zs',
                               raised))))))"

fun convert_field :: "items_field option \<Rightarrow> items_field option \<times> bool" where
  "convert_field (Some (Items zs)) =
     (case convert_items zs of (zs', raised) \<Rightarrow> (Some (Items zs'), raised))"
| "convert_field other = (other, False)"

text \<open>A scalar field: \<open>int(float(v))\<close> for the leverage, \<open>float(v)\<close> for the others;
  the field is removed when the conversion raises.\<close>

fun norm_field :: "bool \<Rightarrow> jval option \<Rightarrow> jval option" where
  "norm_field is_leverage None = None"
| "norm_field is_leverage (Some v) =
     (case py_float v of
        Inl _ \<Rightarrow> None
      | Inr r \<Rightarrow> Some (Num (if is_leverage then of_int (py_int r) else r)))"

definition normalize_numbers :: "candidate \<Rightarrow> candidate" where
  "normalize_numbers d =
     (case convert_field (c_entry_zones d) of
        (zones, raised) \<Rightarrow>
          if raised then d\<lparr>c_entry_zones := zones\<rparr>
          else
            (case convert_field (c_take_profit_levels d) of
               (tps, raised') \<Rightarrow>
                 if raised' then d\<lparr>c_entry_zones := zones, c_take_profit_levels := tps\<rparr>
                 else d\<lparr>c_entry_zones := zones, c_take_profit_levels := tps,
                         c_stop_loss := norm_field False (c_stop_loss d),
                         c_position_size := norm_field False (c_position_size d),
                         c_leverage := norm_field True (c_leverage d),
                         c_confidence := norm_field False (c_confidence d)\<rparr>))"

subsection \<open>\<open>_convert_to_trading_signal\<close>\<close>

text \<open>
  Building the zones and the take-profit levels: a KeyError or a ValueError skips the
  item, any other exception leaves the loop and reaches the outer handler.
\<close>

fun build_items :: "level_dict list \<Rightarrow> pyexn + (real \<times> real) list" where
  "build_items [] = Inr []"
| "build_items (z # zs) =
     (case d_price z of
        None \<Rightarrow> build_items zs
      | Some pv \<Rightarrow>
        (case py_float pv of
           Inl e \<Rightarrow> (if e = ValueError then build_items zs else Inl e)
         | Inr p \<Rightarrow>
           (case d_percentage z of
              None \<Rightarrow> build_items zs
            | Some qv \<Rightarrow>
              (case py_float qv of
                 Inl e \<Rightarrow> (if e = ValueError then build_items zs else Inl e)
               | Inr q \<Rightarrow>
                 (case build_items zs of
                    Inl e \<Rightarrow> Inl e
                  | Inr rest \<Rightarrow> Inr ((p, q) # rest))))))"

text \<open>\<open>data.get('take_profit_levels', data.get('take_profit', []))\<close>\<close>

definition tp_data :: "candidate \<Rightarrow> items_field" where
  "tp_data d =
     (case c_take_profit_levels d of
        Some v \<Rightarrow> v
      | None \<Rightarrow> (case c_take_profit d of Some v \<Rightarrow> v | None \<Rightarrow> Items []))"

definition renormalize :: "TakeProfitLevel list \<Rightarrow> pyexn + TakeProfitLevel list" where
  "renormalize tps =
     (if tps = [] then Inr tps
      else let total_percentage = sum_list (map tp_percentage tps) in
        if isclose total_percentage 1 (1 / 100000) then Inr tps
        else if total_percentage = 0 then Inl ZeroDivisionError
        else Inr (map (\<lambda>tp. tp\<lparr>tp_percentage := tp_percentage tp / total_percentage\<rparr>) tps))"

text \<open>\<open>float(data.get(key, dflt))\<close> and \<open>int(data.get(key, dflt))\<close>\<close>

fun field_float :: "jval option \<Rightarrow> real \<Rightarrow> pyexn + real" where
  "field_float None dflt = Inr dflt"
| "field_float (Some v) dflt = py_float v"

fun field_int :: "jval option \<Rightarrow> int \<Rightarrow> pyexn + int" where
  "field_int None dflt = Inr dflt"
| "field_int (Some v) dflt = py_int_of v"

text \<open>The entry: the zones when the candidate has a non-empty list of them, else the
  single entry price when it is there and not null.\<close>

definition convert_entry :: "candidate \<Rightarrow> pyexn + (real option \<times> EntryZone list)" where
  "convert_entry d =
     (case c_entry_zones d of
        Some (Items (z # zs)) \<Rightarrow>
          (case build_items (z # zs) of
             Inl e \<Rightarrow> Inl e
           | Inr ps \<Rightarrow> Inr (None, map (\<lambda>(p, q). mk_zone p q) ps))
      | _ \<Rightarrow>
          (case c_entry_price d of
             None \<Rightarrow> Inr (None, [])
           | Some Null \<Rightarrow> Inr (None, [])
           | Some v \<Rightarrow>
               (case py_float v of Inl e \<Rightarrow> Inl e | Inr r \<Rightarrow> Inr (Some r, []))))"

definition convert_take_profits :: "candidate \<Rightarrow> pyexn + TakeProfitLevel list" where
  "convert_take_profits d =
     (case tp_data d of
        NotAList \<Rightarrow> Inr []
      | Items ts \<Rightarrow>
          (case build_items ts of
             Inl e \<Rightarrow> Inl e
           | Inr ps \<Rightarrow> renormalize (map (\<lambda>(p, q). mk_tp p q) ps)))"

definition convert_stop_loss :: "candidate \<Rightarrow> real option" where
  "convert_stop_loss d =
     (case c_stop_loss d of
        None \<Rightarrow> None
      | Some v \<Rightarrow> (case py_float v of Inl e \<Rightarrow> None | Inr r \<Rightarrow> Some r))"

text \<open>The constructor call: \<open>float(data.get('position_size', 50.0))\<close>,
  \<open>int(data.get('leverage', 10))\<close>, \<open>float(data.get('confidence', 0.8))\<close>; an
  exception there returns \<open>None\<close>. The field \<open>dynamic_sl\<close> is not passed and keeps the
  default of the class, taken to be False.\<close>

definition construct_signal ::
  "candidate \<Rightarrow> string \<Rightarrow> string \<Rightarrow> string \<Rightarrow> real option \<Rightarrow> EntryZone list \<Rightarrow>
   TakeProfitLevel list \<Rightarrow> real option \<Rightarrow> TradingSignal option" where
  "construct_signal d ex sy ac entry zones tps sl =
     (case (field_float (c_position_size d) 50, field_int (c_leverage d) 10,
            field_float (c_confidence d) (8 / 10)) of
        (Inr ps, Inr lev, Inr conf) \<Rightarrow>
          Some \<lparr>exchange = ex, symbol = sy, action = ac,
                entry_price = entry, entry_zones = zones, take_profit_levels = tps,
                stop_loss = sl, position_size = ps, leverage = lev,
                margin_mode = (case c_margin_mode d of None \<Rightarrow> ''cross'' | Some m \<Rightarrow> m),
                confidence = conf,
                risk_level = (case c_risk_level d of None \<Rightarrow> ''MEDIUM'' | Some r \<Rightarrow> r),
                dynamic_sl = False\<rparr>
      | _ \<Rightarrow> None)"

definition convert_to_trading_signal :: "candidate \<Rightarrow> TradingSignal option" where
  "convert_to_trading_signal d =
     (case (c_exchange d, c_symbol d, c_action d) of
        (Some ex, Some sy, Some ac) \<Rightarrow>
          (case convert_entry d of
             Inl e \<Rightarrow> None
           | Inr (entry, zones) \<Rightarrow>
               if zones = [] \<and> entry = None then None
               else
                 (case convert_take_profits d of
                    Inl e \<Rightarrow> None
                  | Inr tps \<Rightarrow>
                      (case construct_signal d ex sy ac entry zones tps (convert_stop_loss d) of
                         None \<Rightarrow> None
                       | Some signal \<Rightarrow> if is_valid signal then Some signal else None)))
      | _ \<Rightarrow> None)"

subsection \<open>The entry reference, the risk/reward check and the default ladder\<close>

text \<open>
  The three lines every function below starts with:
  \<^verbatim>\<open>entry_price = signal.entry_price
if not entry_price and signal.entry_zones:
    prices = [zone.price for zone in signal.entry_zones]
    entry_price = sum(prices) / len(prices)\<close>
\<close>

definition entry_reference :: "TradingSignal \<Rightarrow> real option" where
  "entry_reference s =
     (if \<not> truthy (entry_price s) \<and> entry_zones s \<noteq> []
      then (let prices = map zone_price (entry_zones s)
            in Some (sum_list prices / real (length prices)))
      else entry_price s)"

fun py_max :: "real list \<Rightarrow> real" where
  "py_max [] = 0"
| "py_max (x # xs) = fold max xs x"

fun py_min :: "real list \<Rightarrow> real" where
  "py_min [] = 0"
| "py_min (x # xs) = fold min xs x"

text \<open>\<open>_validate_risk_ratio\<close>; an entry reference of \<open>None\<close> makes the subtraction
  raise, and the handler returns False.\<close>

definition validate_risk_ratio :: "TradingSignal \<Rightarrow> bool" where
  "validate_risk_ratio s =
     (if action s = ''CLOSE'' then True
      else if \<not> truthy (stop_loss s) then False
      else if take_profit_levels s = [] then False
      else
        (case (entry_reference s, stop_loss s) of
           (Some e, Some sl) \<Rightarrow>
             (let reward = (if action s = ''OPEN_LONG''
                            then py_max (map tp_price (take_profit_levels s)) - e
                            else e - py_min (map tp_price (take_profit_levels s)));
                  risk = (if action s = ''OPEN_LONG'' then e - sl else sl - e)
              in if risk > 0 then reward / risk \<ge> 3 / 2 else False)
         | _ \<Rightarrow> False))"

text \<open>\<open>_calculate_default_take_profits\<close>; a missing entry reference or stop-loss makes
  the subtraction raise, and the handler returns the empty list.\<close>

definition calculate_default_take_profits :: "TradingSignal \<Rightarrow> TakeProfitLevel list" where
  "calculate_default_take_profits s =
     (case (entry_reference s, stop_loss s) of
        (Some e, Some sl) \<Rightarrow>
          (let stop_distance = \<bar>e - sl\<bar> in
           map (\<lambda>(mult, pct).
                  mk_tp (if action s = ''OPEN_LONG'' then e + stop_distance * mult
                         else e - stop_distance * mult) pct)
               (zip [2, 3, 4] [4 / 10, 3 / 10, 3 / 10]))
      | _ \<Rightarrow> [])"

subsection \<open>\<open>process_message\<close>, from the parsed dictionary on\<close>

text \<open>
  The extraction and \<open>_parse_response\<close> are outside the model: \<open>process_message\<close> takes
  what \<open>_parse_response\<close> returned (\<open>None\<close> when no dictionary was found). The risk
  check of the source is the constant \<open>True\<close>: the call to \<open>_validate_risk_ratio\<close> is
  commented out on that line.
\<close>

definition process_message :: "candidate option \<Rightarrow> TradingSignal option" where
  "process_message signal_dict =
     (case signal_dict of None \<Rightarrow> None | Some d \<Rightarrow>
        if validate_json_data d then
          (case convert_to_trading_signal (normalize_numbers d) of
             None \<Rightarrow> None
           | Some signal \<Rightarrow>
               if is_valid signal then
                 (let risk_ratio_valid = True
                  in if risk_ratio_valid then Some signal else None)
               else None)
        else None)"

section \<open>exchange\_execution.py: data\<close>

datatype order_side = BUY | SELL

datatype order_type = MARKET | LIMIT | STOP | STOP_MARKET | TAKE_PROFIT | TAKE_PROFIT_MARKET

datatype position_side = LONG | SHORT

text \<open>\<open>OrderParams\<close>; \<open>extra_params\<close> is the empty dictionary at every call of the
  sources and is left out.\<close>

record OrderParams =
  op_symbol :: string
  op_side :: order_side
  op_order_type :: order_type
  op_amount :: real
  op_price :: "real option"
  op_stop_price :: "real option"
  op_reduce_only :: bool
  op_leverage :: "int option"
  op_margin_mode :: string

definition validate :: "OrderParams \<Rightarrow> bool" where
  "validate order =
     (if op_symbol order = [] then False
      else if \<not> op_amount order > 0 then False
      else if op_order_type order = LIMIT \<and> \<not> truthy (op_price order) then False
      else if op_order_type order \<in> set [STOP, TAKE_PROFIT] \<and> \<not> truthy (op_stop_price order)
        then False
      else True)"

record AccountBalance =
  total_equity :: real
  used_margin :: real
  free_margin :: real
  margin_ratio :: real
  unrealized_pnl :: real
  realized_pnl :: real

text \<open>\<open>AccountBalance()\<close>: every field at its default.\<close>

definition zero_balance :: AccountBalance where
  "zero_balance =
     \<lparr>total_equity = 0, used_margin = 0, free_margin = 0, margin_ratio = 0,
      unrealized_pnl = 0, realized_pnl = 0\<rparr>"

text \<open>The balance dictionary of the exchange: the USDT entries of \<open>total\<close>, \<open>used\<close> and
  \<open>free\<close> (\<open>None\<close> when the entry is not there) and the two profit fields.\<close>

record raw_balance =
  rb_total :: "jval option"
  rb_used :: "jval option"
  rb_free :: "jval option"
  rb_unrealizedPnl :: "jval option"
  rb_realizedPnl :: "jval option"

text \<open>\<open>d.get(key, dflt)\<close> and \<open>a or b\<close> on values.\<close>

definition get_or :: "jval option \<Rightarrow> jval \<Rightarrow> jval" where
  "get_or v dflt = (case v of None \<Rightarrow> dflt | Some x \<Rightarrow> x)"

definition py_or :: "jval \<Rightarrow> jval \<Rightarrow> jval" where
  "py_or a b = (if jtruthy a then a else b)"

text \<open>\<open>float(d.get(key, 0) or 0)\<close>: a value that is missing or false (null, zero, the
  empty string, an empty list) gives 0; any other value goes to \<open>float()\<close>.\<close>

definition float_or_zero :: "jval option \<Rightarrow> pyexn + real" where
  "float_or_zero v = py_float (py_or (get_or v (Num 0)) (Num 0))"

definition from_exchange_balance :: "raw_balance \<Rightarrow> AccountBalance" where
  "from_exchange_balance balance =
     (case (float_or_zero (rb_total balance), float_or_zero (rb_used balance),
            float_or_zero (rb_free balance), float_or_zero (rb_unrealizedPnl balance),
            float_or_zero (rb_realizedPnl balance)) of
        (Inr tot, Inr usd, Inr fre, Inr upnl, Inr rpnl) \<Rightarrow>
          \<lparr>total_equity = tot, used_margin = usd, free_margin = fre,
           margin_ratio = (if tot > 0 then usd / tot * 100 else 0),
           unrealized_pnl = upnl, realized_pnl = rpnl\<rparr>
      | _ \<Rightarrow> zero_balance)"

record PositionInfo =
  pos_symbol :: string
  pos_side :: position_side
  pos_size :: real
  pos_entry_price :: real
  pos_margin_mode :: string
  pos_leverage :: int

text \<open>A position as the exchange reports it. The symbol is taken to be there, the
  side and the margin mode to be strings, and the numeric fields that \<open>PositionInfo\<close>
  only stores (liquidation price, margins, profit) to be numbers or absent.\<close>

record raw_position =
  rp_symbol :: string
  rp_contracts :: "jval option"
  rp_positionAmt :: "jval option"
  rp_side :: string
  rp_entryPrice :: "jval option"
  rp_marginMode :: string
  rp_leverage :: "jval option"

text \<open>\<open>from_exchange_position\<close>: the amount is
  \<open>float(pos.get('contracts', 0) or pos.get('positionAmt', 0) or 0)\<close>, the leverage
  \<open>int(float(pos.get('leverage', 1) or 1))\<close>; any exception returns \<open>None\<close>.\<close>

definition from_exchange_position :: "raw_position \<Rightarrow> PositionInfo option" where
  "from_exchange_position pos =
     (case py_float (py_or (get_or (rp_contracts pos) (Num 0))
                       (py_or (get_or (rp_positionAmt pos) (Num 0)) (Num 0))) of
        Inl e \<Rightarrow> None
      | Inr position_amt \<Rightarrow>
          if position_amt = 0 then None
          else
            (case (float_or_zero (rp_entryPrice pos),
                   py_float (py_or (get_or (rp_leverage pos) (Num 1)) (Num 1))) of
               (Inr entry, Inr lev) \<Rightarrow>
                 Some \<lparr>pos_symbol = rp_symbol pos,
                       pos_side = (if rp_side pos = ''long'' then LONG else SHORT),
                       pos_size = \<bar>position_amt\<bar>,
                       pos_entry_price = entry,
                       pos_margin_mode =
                         (if rp_marginMode pos = ''isolated'' then ''isolated'' else ''cross''),
                       pos_leverage = py_int lev\<rparr>
             | _ \<Rightarrow> None))"

record MarketInfo =
  mi_symbol :: string
  price_precision :: int
  amount_precision :: int
  min_amount :: real
  last_price :: "real option"

section \<open>The exchange behind the client\<close>

text \<open>
  The ccxt exchange object is outside the sources. The answer to one of its calls, or
  the exception the call raises, depends on the call's arguments and on the moment of the
  call: the first argument of each function below is the number of requests the client
  has made before this one, so two calls with the same arguments need not agree, and one
  may raise where the other answers.
  \<open>api_market_info\<close> stands for the two calls \<open>market\<close> and \<open>fetchTicker\<close> followed by
  \<open>MarketInfo.from_exchange_market\<close>: \<open>None\<close> when one of them raises or no
  \<open>MarketInfo\<close> results.

  The last field is not a part of the exchange. \<open>format(amount, '.pf')\<close> rounds the binary
  value of the float to the nearest decimal with \<open>p\<close> places. Where the real amount of
  the model lies on a tie between two such decimals, its float lies on the tie, above it
  or below it, and the decimal chosen is one of the two neighbours; which one the exact
  reals cannot tell. \<open>tie_rounds_up\<close> says, for the moment and the amount, whether it is
  the upper one.
\<close>

record tier =
  maxLeverage :: "jval option"

datatype tiers_response = NotTierList | TierList "tier list"

record order_request =
  rq_symbol :: string
  rq_type :: order_type
  rq_side :: order_side
  rq_amount :: real
  rq_price :: "real option"
  rq_stopPrice :: "real option"
  rq_reduceOnly :: bool

record order_response =
  resp_id :: "string option"
  resp_price :: "real option"

record backend =
  api_market_info :: "nat \<Rightarrow> string \<Rightarrow> MarketInfo option"
  fetchMarketLeverageTiers :: "nat \<Rightarrow> string \<Rightarrow> pyexn + tiers_response"
  setMarginMode :: "nat \<Rightarrow> string \<Rightarrow> string \<Rightarrow> pyexn + unit"
  setLeverage :: "nat \<Rightarrow> int \<Rightarrow> string \<Rightarrow> pyexn + unit"
  createOrder :: "nat \<Rightarrow> order_request \<Rightarrow> pyexn + order_response"
  fetchBalance :: "nat \<Rightarrow> pyexn + raw_balance"
  fetchPositions :: "nat \<Rightarrow> string option \<Rightarrow> pyexn + raw_position list"
  tie_rounds_up :: "nat \<Rightarrow> real \<Rightarrow> bool"

text \<open>The requests that change the account, in the order the client sends them.\<close>

datatype api_call =
    SetMarginMode string string
  | SetLeverage int string
  | CreateOrder order_request

text \<open>What \<open>_position_cache\<close> holds under a key: one position under a symbol, the whole
  list under \<open>'all'\<close>.\<close>

datatype cached_positions = OnePosition PositionInfo | PositionList "PositionInfo list"

record client =
  market_cache :: "string \<rightharpoonup> MarketInfo"
  market_cache_time :: "string \<rightharpoonup> real"
  balance_cache :: "AccountBalance option"
  balance_cache_time :: real
  position_cache :: "string \<rightharpoonup> cached_positions"
  position_cache_time :: "string \<rightharpoonup> real"
  calls :: "api_call list"
  requests :: nat

text \<open>\<open>requests\<close> counts every call made to the exchange object, answered or not;
  \<open>calls\<close> lists those that change the account. Both are bookkeeping of the model.\<close>

definition tick :: "client \<Rightarrow> client" where
  "tick cl = cl\<lparr>requests := Suc (requests cl)\<rparr>"

definition send :: "client \<Rightarrow> api_call \<Rightarrow> client" where
  "send cl c = cl\<lparr>calls := calls cl @ [c], requests := Suc (requests cl)\<rparr>"

definition CACHE_DURATION :: real where
  "CACHE_DURATION = 5"

text \<open>\<open>d.get(key, 0)\<close> on a dictionary of times.\<close>

definition time_of :: "(string \<rightharpoonup> real) \<Rightarrow> string \<Rightarrow> real" where
  "time_of m k = (case m k of None \<Rightarrow> 0 | Some t \<Rightarrow> t)"

section \<open>The exchange client\<close>

text \<open>
  \<open>now\<close> is the value of \<open>time.time()\<close>; it does not advance inside one modelled call.
  \<open>_rate_limit\<close> only sleeps and is left out.
\<close>

definition get_market_info ::
  "backend \<Rightarrow> real \<Rightarrow> client \<Rightarrow> string \<Rightarrow> MarketInfo option \<times> client" where
  "get_market_info be now cl symb =
     (case (if now - time_of (market_cache_time cl) symb < CACHE_DURATION
            then market_cache cl symb else None) of
        Some cached \<Rightarrow> (Some cached, cl)
      | None \<Rightarrow>
          (case api_market_info be (requests cl) symb of
             None \<Rightarrow> (None, tick cl)
           | Some market_info \<Rightarrow>
               (Some market_info,
                (tick cl)\<lparr>market_cache := (market_cache cl)(symb \<mapsto> market_info),
                          market_cache_time := (market_cache_time cl)(symb \<mapsto> now)\<rparr>)))"

subsection \<open>\<open>get_balance\<close>\<close>

text \<open>The body of the \<open>try\<close>, and the function with its handler, which returns
  \<open>AccountBalance()\<close> on any exception.\<close>

definition get_balance_try ::
  "backend \<Rightarrow> real \<Rightarrow> client \<Rightarrow> (pyexn + AccountBalance) \<times> client" where
  "get_balance_try be now cl =
     (case (if now - balance_cache_time cl < CACHE_DURATION
            then balance_cache cl else None) of
        Some cached \<Rightarrow> (Inr cached, cl)
      | None \<Rightarrow>
          (case fetchBalance be (requests cl) of
             Inl e \<Rightarrow> (Inl e, tick cl)
           | Inr balance \<Rightarrow>
               (let balance_info = from_exchange_balance balance
                in (Inr balance_info,
                    (tick cl)\<lparr>balance_cache := Some balance_info,
                              balance_cache_time := now\<rparr>))))"

definition get_balance :: "backend \<Rightarrow> real \<Rightarrow> client \<Rightarrow> AccountBalance \<times> client" where
  "get_balance be now cl =
     (case get_balance_try be now cl of
        (Inr balance_info, cl') \<Rightarrow> (balance_info, cl')
      | (Inl e, cl') \<Rightarrow> (zero_balance, cl'))"

subsection \<open>\<open>get_positions\<close>\<close>

text \<open>The loop over the fetched positions: it appends to \<open>result\<close> and stores each
  position under its symbol; \<open>float(pos.get('contracts', 0))\<close> may raise.\<close>

fun contracts_float :: "jval option \<Rightarrow> pyexn + real" where
  "contracts_float None = Inr 0"
| "contracts_float (Some v) = py_float v"

fun collect_positions ::
  "real \<Rightarrow> raw_position list \<Rightarrow> PositionInfo list \<Rightarrow> client \<Rightarrow>
   (pyexn + PositionInfo list) \<times> client" where
  "collect_positions now [] result cl = (Inr result, cl)"
| "collect_positions now (pos # rest) result cl =
     (case contracts_float (rp_contracts pos) of
        Inl e \<Rightarrow> (Inl e, cl)
      | Inr c \<Rightarrow>
          if c \<noteq> 0 then
            (case from_exchange_position pos of
               None \<Rightarrow> collect_positions now rest result cl
             | Some position_info \<Rightarrow>
                 collect_positions now rest (result @ [position_info])
                   (cl\<lparr>position_cache :=
                         (position_cache cl)(pos_symbol position_info \<mapsto>
                            OnePosition position_info),
                       position_cache_time :=
                         (position_cache_time cl)(pos_symbol position_info \<mapsto> now)\<rparr>))
          else collect_positions now rest result cl)"

text \<open>\<open>symbol or 'all'\<close>, and the truth value of \<open>symbol\<close>.\<close>

fun given :: "string option \<Rightarrow> bool" where
  "given None = False"
| "given (Some s) = (s \<noteq> [])"

definition cache_key :: "string option \<Rightarrow> string" where
  "cache_key symb = (case symb of None \<Rightarrow> ''all'' | Some s \<Rightarrow> if s = [] then ''all'' else s)"

text \<open>The returned list holds whatever the cache held on a hit, and positions on a
  miss: its elements are \<open>cached_positions\<close>.\<close>

definition get_positions ::
  "backend \<Rightarrow> real \<Rightarrow> client \<Rightarrow> string option \<Rightarrow> cached_positions list \<times> client" where
  "get_positions be now cl symb =
     (case (if now - time_of (position_cache_time cl) (cache_key symb) < CACHE_DURATION
            then position_cache cl (cache_key symb) else None) of
        Some cached \<Rightarrow> ([cached], cl)
      | None \<Rightarrow>
          (case fetchPositions be (requests cl) (if given symb then symb else None) of
             Inl e \<Rightarrow> ([], tick cl)
           | Inr positions \<Rightarrow>
               (case collect_positions now positions [] (tick cl) of
                  (Inl e, cl1) \<Rightarrow> ([], cl1)
                | (Inr result, cl1) \<Rightarrow>
                    (map OnePosition result,
                     if \<not> given symb
                     then cl1\<lparr>position_cache := (position_cache cl1)(''all'' \<mapsto> PositionList result),
                              position_cache_time := (position_cache_time cl1)(''all'' \<mapsto> now)\<rparr>
                     else cl1))))"

subsection \<open>Leverage\<close>

text \<open>
  \<open>get_market_leverage_info\<close> returns a dictionary; its \<open>max_leverage\<close> entry is all
  the callers read. \<open>max_leverage_of\<close> is that entry as a function of what the fetch
  gave: \<open>int()\<close> of the first tier's \<open>maxLeverage\<close> (1 when the key is missing), and 1
  when the answer is empty or not a list, when \<open>int()\<close> raises, or when the fetch raised.
\<close>

definition max_leverage_of :: "pyexn + tiers_response \<Rightarrow> int" where
  "max_leverage_of answer =
     (case answer of
        Inr (TierList (t # ts)) \<Rightarrow>
          (case py_int_of (get_or (maxLeverage t) (Num 1)) of
             Inr m \<Rightarrow> m
           | Inl e \<Rightarrow> 1)
      | _ \<Rightarrow> 1)"

definition get_market_leverage_info :: "backend \<Rightarrow> client \<Rightarrow> string \<Rightarrow> int \<times> client" where
  "get_market_leverage_info be cl symb =
     (max_leverage_of (fetchMarketLeverageTiers be (requests cl) symb), tick cl)"

definition set_leverage ::
  "backend \<Rightarrow> client \<Rightarrow> string \<Rightarrow> int \<Rightarrow> string \<Rightarrow> (pyexn + int) \<times> client" where
  "set_leverage be cl symb lev mode =
     (case get_market_leverage_info be cl symb of
        (max_leverage, cl0) \<Rightarrow>
          (let actual_leverage = min lev max_leverage;
               cl1 = send cl0 (SetMarginMode mode symb)
           in case setMarginMode be (requests cl0) mode symb of
                Inl e \<Rightarrow> (Inl e, cl1)
              | Inr u \<Rightarrow>
                  (let cl2 = send cl1 (SetLeverage actual_leverage symb)
                   in case setLeverage be (requests cl1) actual_leverage symb of
                        Inl e \<Rightarrow> (Inl e, cl2)
                      | Inr u \<Rightarrow> (Inr actual_leverage, cl2))))"

subsection \<open>Amounts\<close>

text \<open>\<open>float(format(amount, '.pf'))\<close>: the decimal with \<open>p\<close> places nearest to the
  amount; on a tie the upper neighbour when \<open>up\<close> holds, the lower one otherwise.\<close>

definition round_nearest :: "bool \<Rightarrow> real \<Rightarrow> int" where
  "round_nearest up x =
     (let f = \<lfloor>x\<rfloor>; d = x - of_int f
      in if d < 1 / 2 then f
         else if 1 / 2 < d then f + 1
         else if up then f + 1 else f)"

definition format_fixed :: "bool \<Rightarrow> nat \<Rightarrow> real \<Rightarrow> real" where
  "format_fixed up p x = of_int (round_nearest up (x * 10 ^ p)) / 10 ^ p"

text \<open>\<open>_format_amount\<close>; a negative precision makes the format specifier invalid, and
  the handler returns the amount as it is.\<close>

definition format_amount :: "backend \<Rightarrow> client \<Rightarrow> string \<Rightarrow> real \<Rightarrow> real" where
  "format_amount be cl symb amount =
     (case market_cache cl symb of
        Some market_info \<Rightarrow>
          (let precision = amount_precision market_info
           in if precision < 0 then amount
              else format_fixed (tie_rounds_up be (requests cl) amount) (nat precision) amount)
      | None \<Rightarrow> amount)"

definition format_price :: "client \<Rightarrow> string \<Rightarrow> real \<Rightarrow> real" where
  "format_price cl symb price = price"

record conversion_info =
  raw_quantity :: real
  formatted_quantity :: real
  initial_margin :: real
  notional_value :: real
  ci_price :: real
  ci_leverage :: int

definition convert_amount_to_contracts ::
  "backend \<Rightarrow> real \<Rightarrow> client \<Rightarrow> string \<Rightarrow> real \<Rightarrow> real \<Rightarrow> int \<Rightarrow>
   (pyexn + real \<times> conversion_info) \<times> client" where
  "convert_amount_to_contracts be now cl symb usdt_amount price lev =
     (case get_market_info be now cl symb of
        (None, cl1) \<Rightarrow> (Inl ValueError, cl1)
      | (Some market_info, cl1) \<Rightarrow>
          (case get_market_leverage_info be cl1 symb of
             (max_leverage, cl2) \<Rightarrow>
               (let actual_leverage = min lev max_leverage;
                    notional = usdt_amount * of_int actual_leverage
                in if price = 0 then (Inl ZeroDivisionError, cl2)
                   else
                     (let quantity = notional / price;
                          formatted = format_amount be cl2 symb quantity
                      in if actual_leverage = 0 then (Inl ZeroDivisionError, cl2)
                         else
                           (Inr (formatted,
                                 \<lparr>raw_quantity = quantity, formatted_quantity = formatted,
                                  initial_margin = formatted * price / of_int actual_leverage,
                                  notional_value = formatted * price,
                                  ci_price = price, ci_leverage = actual_leverage\<rparr>),
                            cl2)))))"

subsection \<open>\<open>create_order\<close>\<close>

text \<open>
  Modelled from the spec: the class \<open>OrderResult\<close> lives in \<open>models.py\<close>, which is
  not among the sources; its fields are the ones the sources pass to its constructor.
  \<open>error_message\<close> is the text of an exception (\<open>str(e)\<close>) or a fixed message.
\<close>

datatype error_text = Raised pyexn | Message string

record OrderResult =
  success :: bool
  res_order_id :: "string option"
  executed_price :: "real option"
  executed_amount :: "real option"
  error_message :: "error_text option"

text \<open>\<open>OrderResult(success=False, error_message=msg)\<close>\<close>

definition failed_result :: "error_text \<Rightarrow> OrderResult" where
  "failed_result msg =
     \<lparr>success = False, res_order_id = None, executed_price = None, executed_amount = None,
      error_message = Some msg\<rparr>"

text \<open>\<open>create_order\<close> raises every failure to the caller: it returns an
  \<open>OrderResult\<close> with \<open>success = True\<close> or raises. Its steps: the leverage
  \<open>order.leverage or 50\<close>, the price used, the request, the submission.\<close>

definition order_leverage :: "OrderParams \<Rightarrow> int" where
  "order_leverage order =
     (case op_leverage order of None \<Rightarrow> 50 | Some l \<Rightarrow> if l = 0 then 50 else l)"

definition use_price_of :: "OrderParams \<Rightarrow> real \<Rightarrow> real" where
  "use_price_of order lastp =
     (case op_price order of
        Some p \<Rightarrow> if op_order_type order = LIMIT \<and> p \<noteq> 0 then p else lastp
      | None \<Rightarrow> lastp)"

definition order_params :: "client \<Rightarrow> OrderParams \<Rightarrow> real \<Rightarrow> order_request" where
  "order_params cl order quantity =
     \<lparr>rq_symbol = op_symbol order, rq_type = op_order_type order, rq_side = op_side order,
      rq_amount = quantity,
      rq_price = (if op_order_type order = LIMIT
                  then map_option (format_price cl (op_symbol order)) (op_price order)
                  else None),
      rq_stopPrice = (if truthy (op_stop_price order)
                      then map_option (format_price cl (op_symbol order)) (op_stop_price order)
                      else None),
      rq_reduceOnly = op_reduce_only order\<rparr>"

definition submit_order ::
  "backend \<Rightarrow> client \<Rightarrow> OrderParams \<Rightarrow> real \<Rightarrow> real \<Rightarrow> (pyexn + OrderResult) \<times> client" where
  "submit_order be cl order use_price quantity =
     (let params = order_params cl order quantity;
          cl1 = send cl (CreateOrder params)
      in case createOrder be (requests cl) params of
           Inl e \<Rightarrow> (Inl e, cl1)
         | Inr result \<Rightarrow>
             (case resp_id result of
                None \<Rightarrow> (Inl KeyError, cl1)
              | Some oid \<Rightarrow>
                  (Inr \<lparr>success = True, res_order_id = Some oid,
                        executed_price =
                          Some (if truthy (resp_price result) then the (resp_price result)
                                else use_price),
                        executed_amount = Some quantity, error_message = None\<rparr>,
                   cl1)))"

definition create_order ::
  "backend \<Rightarrow> real \<Rightarrow> client \<Rightarrow> OrderParams \<Rightarrow> (pyexn + OrderResult) \<times> client" where
  "create_order be now cl order =
     (if \<not> validate order then (Inl OrderException, cl)
      else
        (case get_market_info be now cl (op_symbol order) of
           (None, cl1) \<Rightarrow> (Inl ValueError, cl1)
         | (Some market_info, cl1) \<Rightarrow>
             (case last_price market_info of
                None \<Rightarrow> (Inl ValueError, cl1)
              | Some lastp \<Rightarrow>
                  if lastp = 0 then (Inl ValueError, cl1)
                  else
                    (let use_price = use_price_of order lastp
                     in case set_leverage be cl1 (op_symbol order) (order_leverage order)
                               (op_margin_mode order) of
                          (Inl e, cl2) \<Rightarrow> (Inl e, cl2)
                        | (Inr actual_leverage, cl2) \<Rightarrow>
                            (case convert_amount_to_contracts be now cl2 (op_symbol order)
                                    (op_amount order) use_price actual_leverage of
                               (Inl e, cl3) \<Rightarrow> (Inl e, cl3)
                             | (Inr (quantity, info), cl3) \<Rightarrow>
                                 submit_order be cl3 order use_price quantity)))))"

text \<open>
  A list of orders handed to \<open>create_order\<close> one after the other, each on the client
  the one before left, up to the first that raises: what each call returned or raised,
  and the client after the last. \<open>succeeded\<close> is the \<open>success\<close> field of a result, and
  False of an exception.
\<close>

fun place_all ::
  "backend \<Rightarrow> real \<Rightarrow> client \<Rightarrow> OrderParams list \<Rightarrow> (pyexn + OrderResult) list \<times> client" where
  "place_all be now cl [] = ([], cl)"
| "place_all be now cl (order # rest) =
     (case create_order be now cl order of
        (Inl e, cl1) \<Rightarrow> ([Inl e], cl1)
      | (Inr result, cl1) \<Rightarrow>
          (case place_all be now cl1 rest of (outcomes, cl2) \<Rightarrow> (Inr result # outcomes, cl2)))"

fun succeeded :: "pyexn + OrderResult \<Rightarrow> bool" where
  "succeeded (Inl e) = False"
| "succeeded (Inr result) = success result"

section \<open>The exchange manager\<close>

text \<open>
  The manager holds one client per exchange name and the active signals under the key
  \<open>exchange_symbol\<close>. The functions below address one exchange; \<open>be\<close> is the exchange
  behind that client.
\<close>

record manager =
  exchanges :: "string \<rightharpoonup> client"
  active_signals :: "string \<rightharpoonup> TradingSignal"

definition signal_key :: "string \<Rightarrow> string \<Rightarrow> string" where
  "signal_key exchange_name symb = exchange_name @ ''_'' @ symb"

definition put_client :: "manager \<Rightarrow> string \<Rightarrow> client \<Rightarrow> manager" where
  "put_client mgr name cl = mgr\<lparr>exchanges := (exchanges mgr)(name \<mapsto> cl)\<rparr>"

subsection \<open>\<open>execute_signal\<close>\<close>

definition zone_order :: "TradingSignal \<Rightarrow> EntryZone \<Rightarrow> OrderParams" where
  "zone_order signal zone =
     \<lparr>op_symbol = symbol signal,
      op_side = (if action signal = ''OPEN_LONG'' then BUY else SELL),
      op_order_type = LIMIT,
      op_amount = position_size signal * zone_percentage zone,
      op_price = Some (zone_price zone), op_stop_price = None, op_reduce_only = False,
      op_leverage = Some (leverage signal), op_margin_mode = margin_mode signal\<rparr>"

definition single_order :: "TradingSignal \<Rightarrow> OrderParams" where
  "single_order signal =
     \<lparr>op_symbol = symbol signal,
      op_side = (if action signal = ''OPEN_LONG'' then BUY else SELL),
      op_order_type = (if \<not> truthy (entry_price signal) then MARKET else LIMIT),
      op_amount = position_size signal,
      op_price = entry_price signal, op_stop_price = None, op_reduce_only = False,
      op_leverage = Some (leverage signal), op_margin_mode = margin_mode signal\<rparr>"

text \<open>
  The loop over the zones. It returns the results collected, or the exception that left
  the loop; the orders handed to \<open>create_order\<close>, in order; the zones with
  \<open>order_id\<close> and \<open>status\<close> updated; and the client.
\<close>

fun place_zones ::
  "backend \<Rightarrow> real \<Rightarrow> client \<Rightarrow> TradingSignal \<Rightarrow> EntryZone list \<Rightarrow>
   (pyexn + OrderResult list) \<times> OrderParams list \<times> EntryZone list \<times> client" where
  "place_zones be now cl signal [] = (Inr [], [], [], cl)"
| "place_zones be now cl signal (zone # rest) =
     (let order = zone_order signal zone
      in case create_order be now cl order of
           (Inl e, cl1) \<Rightarrow> (Inl e, [order], zone # rest, cl1)
         | (Inr result, cl1) \<Rightarrow>
             (let zone' = (if success result
                           then zone\<lparr>zone_order_id := res_order_id result,
                                     zone_status := PLACED\<rparr>
                           else zone)
              in case place_zones be now cl1 signal rest of
                   (outcome, attempted, zones', cl2) \<Rightarrow>
                     ((case outcome of
                         Inl e \<Rightarrow> Inl e
                       | Inr results \<Rightarrow> Inr (result # results)),
                      order # attempted, zone' # zones', cl2)))"

text \<open>\<open>execute_signal\<close> returns the \<open>OrderResult\<close>; the model adds the orders handed
  to \<open>create_order\<close>, the signal with its zones updated, and the manager.\<close>

definition execute_signal ::
  "backend \<Rightarrow> real \<Rightarrow> manager \<Rightarrow> TradingSignal \<Rightarrow>
   OrderResult \<times> OrderParams list \<times> TradingSignal \<times> manager" where
  "execute_signal be now mgr signal =
     (case exchanges mgr (exchange signal) of
        None \<Rightarrow>
          (failed_result (Message (''Exchange '' @ exchange signal @ '' not configured'')),
           [], signal, mgr)
      | Some cl \<Rightarrow>
          if entry_zones signal \<noteq> [] then
            (case place_zones be now cl signal (entry_zones signal) of
               (Inl e, attempted, zones', cl') \<Rightarrow>
                 (failed_result (Raised e), attempted, signal\<lparr>entry_zones := zones'\<rparr>,
                  put_client mgr (exchange signal) cl')
             | (Inr results, attempted, zones', cl') \<Rightarrow>
                 ((case results of
                     [] \<Rightarrow> failed_result (Message ''No orders created'')
                   | first # others \<Rightarrow> first),
                  attempted, signal\<lparr>entry_zones := zones'\<rparr>,
                  put_client mgr (exchange signal) cl'))
          else
            (case create_order be now cl (single_order signal) of
               (Inl e, cl') \<Rightarrow>
                 (failed_result (Raised e), [single_order signal], signal,
                  put_client mgr (exchange signal) cl')
             | (Inr result, cl') \<Rightarrow>
                 (result, [single_order signal], signal,
                  put_client mgr (exchange signal) cl')))"

subsection \<open>\<open>_check_take_profit_levels\<close>\<close>

definition tp_triggered :: "string \<Rightarrow> real \<Rightarrow> TakeProfitLevel \<Rightarrow> bool" where
  "tp_triggered act current_price tp_level =
     ((act = ''OPEN_LONG'' \<and> current_price \<ge> tp_price tp_level)
      \<or> (act = ''OPEN_SHORT'' \<and> current_price \<le> tp_price tp_level))"

definition tp_order ::
  "string \<Rightarrow> string \<Rightarrow> PositionInfo \<Rightarrow> TakeProfitLevel \<Rightarrow> OrderParams" where
  "tp_order symb act position tp_level =
     \<lparr>op_symbol = symb,
      op_side = (if act = ''OPEN_LONG'' then SELL else BUY),
      op_order_type = MARKET,
      op_amount = pos_size position * tp_percentage tp_level,
      op_price = None, op_stop_price = None, op_reduce_only = True,
      op_leverage = None, op_margin_mode = ''cross''\<rparr>"

text \<open>
  The loop over the levels, from the level with index \<open>i\<close> on. It returns the
  exception that left the loop, if any; for each close order handed to \<open>create_order\<close>
  the index of its level, the order, and whether it reported success; the levels after
  the pass; and the client. \<open>hit_time\<close> is set to the time of the pass.
\<close>

fun tp_loop ::
  "backend \<Rightarrow> real \<Rightarrow> client \<Rightarrow> string \<Rightarrow> string \<Rightarrow> PositionInfo \<Rightarrow> real \<Rightarrow> nat \<Rightarrow>
   TakeProfitLevel list \<Rightarrow>
   pyexn option \<times> (nat \<times> OrderParams \<times> bool) list \<times> TakeProfitLevel list \<times> client" where
  "tp_loop be now cl symb act position current_price i [] = (None, [], [], cl)"
| "tp_loop be now cl symb act position current_price i (tp_level # rest) =
     (if is_hit tp_level then
        (case tp_loop be now cl symb act position current_price (Suc i) rest of
           (exn, trace, rest', cl') \<Rightarrow> (exn, trace, tp_level # rest', cl'))
      else if tp_triggered act current_price tp_level then
        (let order = tp_order symb act position tp_level
         in case create_order be now cl order of
              (Inl e, cl1) \<Rightarrow> (Some e, [(i, order, False)], tp_level # rest, cl1)
            | (Inr result, cl1) \<Rightarrow>
                (let tp_level' = (if success result
                                  then tp_level\<lparr>is_hit := True, hit_time := Some now\<rparr>
                                  else tp_level)
                 in case tp_loop be now cl1 symb act position current_price (Suc i) rest of
                      (exn, trace, rest', cl') \<Rightarrow>
                        (exn, (i, order, success result) # trace, tp_level' # rest', cl')))
      else
        (case tp_loop be now cl symb act position current_price (Suc i) rest of
           (exn, trace, rest', cl') \<Rightarrow> (exn, trace, tp_level # rest', cl')))"

text \<open>\<open>_check_take_profit_levels\<close> returns nothing and catches every exception; the
  model returns the manager and the close orders of the pass.\<close>

definition check_take_profit_levels ::
  "backend \<Rightarrow> real \<Rightarrow> manager \<Rightarrow> string \<Rightarrow> string \<Rightarrow> PositionInfo \<Rightarrow>
   manager \<times> (nat \<times> OrderParams \<times> bool) list" where
  "check_take_profit_levels be now mgr exchange_name symb position =
     (case exchanges mgr exchange_name of
        None \<Rightarrow> (mgr, [])
      | Some cl \<Rightarrow>
          (case active_signals mgr (signal_key exchange_name symb) of
             None \<Rightarrow> (mgr, [])
           | Some signal \<Rightarrow>
               if take_profit_levels signal = [] then (mgr, [])
               else
                 (case get_market_info be now cl symb of
                    (None, cl1) \<Rightarrow> (put_client mgr exchange_name cl1, [])
                  | (Some market_info, cl1) \<Rightarrow>
                      (case last_price market_info of
                         None \<Rightarrow> (put_client mgr exchange_name cl1, [])
                       | Some current_price \<Rightarrow>
                           if current_price = 0 then (put_client mgr exchange_name cl1, [])
                           else
                             (case tp_loop be now cl1 symb (action signal) position
                                     current_price 0 (take_profit_levels signal) of
                                (exn, trace, levels', cl2) \<Rightarrow>
                                  ((put_client mgr exchange_name cl2)
                                     \<lparr>active_signals :=
                                        (active_signals mgr)
                                          (signal_key exchange_name symb \<mapsto>
                                             signal\<lparr>take_profit_levels := levels'\<rparr>)\<rparr>,
                                   trace))))))"

subsection \<open>\<open>modify_position\<close> and \<open>_check_dynamic_stop_loss\<close>\<close>

definition protective_order ::
  "string \<Rightarrow> PositionInfo \<Rightarrow> order_type \<Rightarrow> real \<Rightarrow> OrderParams" where
  "protective_order symb position otype trigger =
     \<lparr>op_symbol = symb,
      op_side = (if pos_side position = SHORT then BUY else SELL),
      op_order_type = otype,
      op_amount = pos_size position,
      op_price = None, op_stop_price = Some trigger, op_reduce_only = True,
      op_leverage = None, op_margin_mode = ''cross''\<rparr>"

text \<open>One of the two steps of \<open>modify_position\<close>: nothing when the price is not given
  (or is 0.0); an exception when \<open>positions[0]\<close> is not a position or the order
  raises.\<close>

definition modify_step ::
  "backend \<Rightarrow> real \<Rightarrow> client \<Rightarrow> string \<Rightarrow> cached_positions \<Rightarrow> order_type \<Rightarrow> real option \<Rightarrow>
   bool \<Rightarrow> (pyexn + bool) \<times> client" where
  "modify_step be now cl symb first otype trigger ok =
     (case trigger of
        None \<Rightarrow> (Inr ok, cl)
      | Some t \<Rightarrow>
          if t = 0 then (Inr ok, cl)
          else
            (case first of
               PositionList ps \<Rightarrow> (Inl AttributeError, cl)
             | OnePosition position \<Rightarrow>
                 (case create_order be now cl (protective_order symb position otype t) of
                    (Inl e, cl1) \<Rightarrow> (Inl e, cl1)
                  | (Inr result, cl1) \<Rightarrow> (Inr (ok \<and> success result), cl1))))"

definition modify_position ::
  "backend \<Rightarrow> real \<Rightarrow> manager \<Rightarrow> string \<Rightarrow> string \<Rightarrow> real option \<Rightarrow> real option \<Rightarrow>
   bool \<times> manager" where
  "modify_position be now mgr exchange_name symb stop_price take_price =
     (case exchanges mgr exchange_name of
        None \<Rightarrow> (False, mgr)
      | Some cl \<Rightarrow>
          (case get_positions be now cl (Some symb) of
             ([], cl1) \<Rightarrow> (False, put_client mgr exchange_name cl1)
           | (first # others, cl1) \<Rightarrow>
               (case modify_step be now cl1 symb first STOP_MARKET stop_price True of
                  (Inl e, cl2) \<Rightarrow> (False, put_client mgr exchange_name cl2)
                | (Inr ok, cl2) \<Rightarrow>
                    (case modify_step be now cl2 symb first TAKE_PROFIT_MARKET take_price ok of
                       (Inl e, cl3) \<Rightarrow> (False, put_client mgr exchange_name cl3)
                     | (Inr ok', cl3) \<Rightarrow> (ok', put_client mgr exchange_name cl3)))))"

text \<open>The stop proposed by a pass: half of the favourable distance beyond the entry,
  when the price has moved in the signal's favour.\<close>

definition proposed_stop :: "string \<Rightarrow> real \<Rightarrow> real \<Rightarrow> real option" where
  "proposed_stop act entry current_price =
     (if act = ''OPEN_LONG''
      then (if current_price > entry
            then Some (entry + (current_price - entry) * (1 / 2)) else None)
      else (if current_price < entry
            then Some (entry - (entry - current_price) * (1 / 2)) else None))"

definition more_favourable :: "string \<Rightarrow> real \<Rightarrow> real \<Rightarrow> bool" where
  "more_favourable act new_sl old_sl =
     (if act = ''OPEN_LONG'' then new_sl > old_sl else new_sl < old_sl)"

text \<open>\<open>_check_dynamic_stop_loss\<close>. The comparison is with \<open>signal.stop_loss\<close>, which
  no line of the sources assigns after a stop has been applied; a signal without
  stop-loss makes the comparison raise, which the handler catches.\<close>

definition check_dynamic_stop_loss ::
  "backend \<Rightarrow> real \<Rightarrow> manager \<Rightarrow> string \<Rightarrow> string \<Rightarrow> PositionInfo \<Rightarrow> manager" where
  "check_dynamic_stop_loss be now mgr exchange_name symb position =
     (if pos_size position = 0 then mgr
      else
        (case active_signals mgr (signal_key exchange_name symb) of
           None \<Rightarrow> mgr
         | Some signal \<Rightarrow>
             if \<not> dynamic_sl signal then mgr
             else
               (case exchanges mgr exchange_name of
                  None \<Rightarrow> mgr
                | Some cl \<Rightarrow>
                    (case get_market_info be now cl symb of
                       (None, cl1) \<Rightarrow> put_client mgr exchange_name cl1
                     | (Some market_info, cl1) \<Rightarrow>
                         (case last_price market_info of
                            None \<Rightarrow> put_client mgr exchange_name cl1
                          | Some current_price \<Rightarrow>
                              if current_price = 0 then put_client mgr exchange_name cl1
                              else
                                (case proposed_stop (action signal)
                                        (pos_entry_price position) current_price of
                                   None \<Rightarrow> put_client mgr exchange_name cl1
                                 | Some new_sl \<Rightarrow>
                                     (case stop_loss signal of
                                        None \<Rightarrow> put_client mgr exchange_name cl1
                                      | Some old_sl \<Rightarrow>
                                          if more_favourable (action signal) new_sl old_sl
                                          then snd (modify_position be now
                                                      (put_client mgr exchange_name cl1)
                                                      exchange_name symb (Some new_sl) None)
                                          else put_client mgr exchange_name cl1)))))))"

text \<open>The trigger prices of the stop orders among the requests sent, in order.\<close>

fun stop_orders :: "api_call list \<Rightarrow> real list" where
  "stop_orders [] = []"
| "stop_orders (CreateOrder rq # cs) =
     (case rq_stopPrice rq of
        Some t \<Rightarrow> (if rq_type rq = STOP_MARKET then t # stop_orders cs else stop_orders cs)
      | None \<Rightarrow> stop_orders cs)"
| "stop_orders (c # cs) = stop_orders cs"

section \<open>Inputs used below\<close>

text \<open>A long candidate with entry 100, stop-loss 95 and one take-profit at 106: the
  reward is 6, the risk 5, the ratio 1.2.\<close>

definition rr12_candidate :: candidate where
  "rr12_candidate =
     \<lparr>c_exchange = Some ''BINANCE'', c_symbol = Some ''BTCUSDT'',
      c_action = Some ''OPEN_LONG'', c_entry_zones = None, c_entry_price = Some (Num 100),
      c_take_profit_levels =
        Some (Items [\<lparr>d_price = Some (Num 106), d_percentage = Some (Num 1)\<rparr>]),
      c_take_profit = None, c_stop_loss = Some (Num 95), c_position_size = None,
      c_leverage = None, c_confidence = None, c_margin_mode = None, c_risk_level = None\<rparr>"

definition rr12_signal :: TradingSignal where
  "rr12_signal =
     \<lparr>exchange = ''BINANCE'', symbol = ''BTCUSDT'', action = ''OPEN_LONG'',
      entry_price = Some 100, entry_zones = [], take_profit_levels = [mk_tp 106 1],
      stop_loss = Some 95, position_size = 50, leverage = 10, margin_mode = ''cross'',
      confidence = 8 / 10, risk_level = ''MEDIUM'', dynamic_sl = False\<rparr>"

text \<open>A long candidate with two entry zones whose percentages are 0.5 and 0.3.\<close>

definition zones_candidate :: candidate where
  "zones_candidate =
     \<lparr>c_exchange = Some ''BINANCE'', c_symbol = Some ''BTCUSDT'',
      c_action = Some ''OPEN_LONG'',
      c_entry_zones =
        Some (Items [\<lparr>d_price = Some (Num 100), d_percentage = Some (Num (5 / 10))\<rparr>,
                     \<lparr>d_price = Some (Num 99), d_percentage = Some (Num (3 / 10))\<rparr>]),
      c_entry_price = None,
      c_take_profit_levels =
        Some (Items [\<lparr>d_price = Some (Num 110), d_percentage = Some (Num 1)\<rparr>]),
      c_take_profit = None, c_stop_loss = Some (Num 95), c_position_size = None,
      c_leverage = None, c_confidence = None, c_margin_mode = None, c_risk_level = None\<rparr>"

definition zones_signal :: TradingSignal where
  "zones_signal =
     \<lparr>exchange = ''BINANCE'', symbol = ''BTCUSDT'', action = ''OPEN_LONG'',
      entry_price = None, entry_zones = [mk_zone 100 (5 / 10), mk_zone 99 (3 / 10)],
      take_profit_levels = [mk_tp 110 1],
      stop_loss = Some 95, position_size = 50, leverage = 10, margin_mode = ''cross'',
      confidence = 8 / 10, risk_level = ''MEDIUM'', dynamic_sl = False\<rparr>"

text \<open>A long signal with entry 100 and stop-loss 98 and no take-profit levels.\<close>

definition long_100_98 :: TradingSignal where
  "long_100_98 =
     \<lparr>exchange = ''BINANCE'', symbol = ''BTCUSDT'', action = ''OPEN_LONG'',
      entry_price = Some 100, entry_zones = [], take_profit_levels = [],
      stop_loss = Some 98, position_size = 50, leverage = 10, margin_mode = ''cross'',
      confidence = 8 / 10, risk_level = ''MEDIUM'', dynamic_sl = False\<rparr>"

text \<open>The items of a candidate's list whose price and percentage are both numeric
  (numbers, or strings that \<open>float()\<close> reads), as pairs of their values, in order: what
  the candidate supplies as zones.\<close>

fun numeric_items :: "level_dict list \<Rightarrow> (real \<times> real) list" where
  "numeric_items [] = []"
| "numeric_items (z # zs) =
     (case (d_price z, d_percentage z) of
        (Some pv, Some qv) \<Rightarrow>
          (case (py_float pv, py_float qv) of
             (Inr p, Inr q) \<Rightarrow> (p, q) # numeric_items zs
           | _ \<Rightarrow> numeric_items zs)
      | _ \<Rightarrow> numeric_items zs)"

text \<open>A market with amount precision 3, a client with empty caches that has made no
  request, two reported positions, and an exchange that at every moment accepts every
  request, reports the leverage tiers 100 and 50 for every symbol and fails to deliver
  the balance.\<close>

definition btc_market :: MarketInfo where
  "btc_market =
     \<lparr>mi_symbol = ''BTCUSDT'', price_precision = 2, amount_precision = 3,
      min_amount = 1 / 1000, last_price = Some 50000\<rparr>"

definition empty_client :: client where
  "empty_client =
     \<lparr>market_cache = Map.empty, market_cache_time = Map.empty, balance_cache = None,
      balance_cache_time = 0, position_cache = Map.empty, position_cache_time = Map.empty,
      calls = [], requests = 0\<rparr>"

definition btc_raw :: raw_position where
  "btc_raw = \<lparr>rp_symbol = ''BTCUSDT'', rp_contracts = Some (Num 1), rp_positionAmt = None,
      rp_side = ''long'', rp_entryPrice = Some (Num 100), rp_marginMode = ''cross'',
      rp_leverage = Some (Num 10)\<rparr>"

definition eth_raw :: raw_position where
  "eth_raw = \<lparr>rp_symbol = ''ETHUSDT'', rp_contracts = Some (Num 2), rp_positionAmt = None,
      rp_side = ''short'', rp_entryPrice = Some (Num 20), rp_marginMode = ''cross'',
      rp_leverage = Some (Num 5)\<rparr>"

definition btc_position :: PositionInfo where
  "btc_position = \<lparr>pos_symbol = ''BTCUSDT'', pos_side = LONG, pos_size = 1,
      pos_entry_price = 100, pos_margin_mode = ''cross'', pos_leverage = 10\<rparr>"

definition eth_position :: PositionInfo where
  "eth_position = \<lparr>pos_symbol = ''ETHUSDT'', pos_side = SHORT, pos_size = 2,
      pos_entry_price = 20, pos_margin_mode = ''cross'', pos_leverage = 5\<rparr>"

definition test_backend :: backend where
  "test_backend =
     \<lparr>api_market_info = (\<lambda>n s. if s = ''BTCUSDT'' then Some btc_market else None),
      fetchMarketLeverageTiers =
        (\<lambda>n s. Inr (TierList [\<lparr>maxLeverage = Some (Num 100)\<rparr>,
                                 \<lparr>maxLeverage = Some (Num 50)\<rparr>])),
      setMarginMode = (\<lambda>n m s. Inr ()),
      setLeverage = (\<lambda>n l s. Inr ()),
      createOrder = (\<lambda>n rq. Inr \<lparr>resp_id = Some ''1'', resp_price = None\<rparr>),
      fetchBalance = (\<lambda>n. Inl (ExchangeError ''timeout'')),
      fetchPositions = (\<lambda>n s. Inr [btc_raw, eth_raw]),
      tie_rounds_up = (\<lambda>n x. False)\<rparr>"

text \<open>The same exchange, except that the fetch of the leverage tiers made as request
  number \<open>k\<close> raises; and the exchange that reports the tiers 50 and 100, in this
  order.\<close>

definition failing_tiers_backend :: "nat \<Rightarrow> backend" where
  "failing_tiers_backend k =
     test_backend
       \<lparr>fetchMarketLeverageTiers :=
          (\<lambda>n s. if n = k then Inl (ExchangeError ''timeout'')
                 else Inr (TierList [\<lparr>maxLeverage = Some (Num 100)\<rparr>,
                                     \<lparr>maxLeverage = Some (Num 50)\<rparr>]))\<rparr>"

definition rising_tiers_backend :: backend where
  "rising_tiers_backend =
     test_backend
       \<lparr>fetchMarketLeverageTiers :=
          (\<lambda>n s. Inr (TierList [\<lparr>maxLeverage = Some (Num 50)\<rparr>,
                                 \<lparr>maxLeverage = Some (Num 100)\<rparr>]))\<rparr>"

text \<open>The same exchange, except that it refuses every change of the margin mode.\<close>

definition refusing_mode_backend :: backend where
  "refusing_mode_backend =
     test_backend\<lparr>setMarginMode := (\<lambda>n m s. Inl (ExchangeError ''refused''))\<rparr>"

text \<open>The client after the positions of all symbols were fetched at time 1000, and
  the client after the market was fetched at time 1000: one request each.\<close>

definition cached_client :: client where
  "cached_client =
     empty_client
       \<lparr>position_cache := [''BTCUSDT'' \<mapsto> OnePosition btc_position,
                            ''ETHUSDT'' \<mapsto> OnePosition eth_position,
                            ''all'' \<mapsto> PositionList [btc_position, eth_position]],
        position_cache_time := [''BTCUSDT'' \<mapsto> 1000, ''ETHUSDT'' \<mapsto> 1000, ''all'' \<mapsto> 1000],
        requests := 1\<rparr>"

definition market_client :: client where
  "market_client =
     empty_client\<lparr>market_cache := [''BTCUSDT'' \<mapsto> btc_market],
                  market_cache_time := [''BTCUSDT'' \<mapsto> 1000], requests := 1\<rparr>"

text \<open>A limit order for 100 USDT at 50000 that asks for a leverage of 125.\<close>

definition limit_order_125 :: OrderParams where
  "limit_order_125 =
     \<lparr>op_symbol = ''BTCUSDT'', op_side = BUY, op_order_type = LIMIT, op_amount = 100,
      op_price = Some 50000, op_stop_price = None, op_reduce_only = False,
      op_leverage = Some 125, op_margin_mode = ''cross''\<rparr>"

text \<open>The exchange of the inputs above with the last price of BTCUSDT at \<open>p\<close> and one
  open position; and the exchange that rejects every order priced at \<open>p\<close>.\<close>

definition backend_at :: "real \<Rightarrow> backend" where
  "backend_at p =
     test_backend
       \<lparr>api_market_info :=
          (\<lambda>n s. if s = ''BTCUSDT'' then Some (btc_market\<lparr>last_price := Some p\<rparr>) else None),
        fetchPositions := (\<lambda>n s. Inr [btc_raw])\<rparr>"

definition rejecting_backend :: "real \<Rightarrow> backend" where
  "rejecting_backend p =
     test_backend
       \<lparr>createOrder :=
          (\<lambda>n rq. if rq_price rq = Some p then Inl (ExchangeError ''rejected'')
                  else Inr \<lparr>resp_id = Some ''1'', resp_price = None\<rparr>)\<rparr>"

text \<open>A long signal with two entry zones of one half each, and the manager that holds
  a signal for BTCUSDT on BINANCE with a fresh client.\<close>

definition two_zone_signal :: TradingSignal where
  "two_zone_signal =
     \<lparr>exchange = ''BINANCE'', symbol = ''BTCUSDT'', action = ''OPEN_LONG'',
      entry_price = None, entry_zones = [mk_zone 100 (1 / 2), mk_zone 99 (1 / 2)],
      take_profit_levels = [mk_tp 110 1],
      stop_loss = Some 95, position_size = 50, leverage = 10, margin_mode = ''cross'',
      confidence = 8 / 10, risk_level = ''MEDIUM'', dynamic_sl = False\<rparr>"

definition binance_manager :: "TradingSignal \<Rightarrow> manager" where
  "binance_manager signal =
     \<lparr>exchanges = [''BINANCE'' \<mapsto> empty_client],
      active_signals = [''BINANCE_BTCUSDT'' \<mapsto> signal]\<rparr>"

text \<open>A long signal with entry 100, stop-loss 98 and \<open>dynamic_sl\<close> set; the stop
  order with a given quantity and trigger; and the client as it is after the first and
  after the second monitoring pass of the scenario below.\<close>

definition trailing_signal :: TradingSignal where
  "trailing_signal =
     \<lparr>exchange = ''BINANCE'', symbol = ''BTCUSDT'', action = ''OPEN_LONG'',
      entry_price = Some 100, entry_zones = [], take_profit_levels = [mk_tp 110 1],
      stop_loss = Some 98, position_size = 50, leverage = 10, margin_mode = ''cross'',
      confidence = 8 / 10, risk_level = ''MEDIUM'', dynamic_sl = True\<rparr>"

definition stop_request :: "real \<Rightarrow> real \<Rightarrow> order_request" where
  "stop_request quantity trigger =
     \<lparr>rq_symbol = ''BTCUSDT'', rq_type = STOP_MARKET, rq_side = SELL, rq_amount = quantity,
      rq_price = None, rq_stopPrice = Some trigger, rq_reduceOnly = True\<rparr>"

definition client_after_first_pass :: client where
  "client_after_first_pass =
     \<lparr>market_cache = [''BTCUSDT'' \<mapsto> btc_market\<lparr>last_price := Some 106\<rparr>],
      market_cache_time = [''BTCUSDT'' \<mapsto> 1000],
      balance_cache = None, balance_cache_time = 0,
      position_cache = [''BTCUSDT'' \<mapsto> OnePosition btc_position],
      position_cache_time = [''BTCUSDT'' \<mapsto> 1000],
      calls = [SetMarginMode ''cross'' ''BTCUSDT'', SetLeverage 50 ''BTCUSDT'',
               CreateOrder (stop_request (472 / 1000) 103)],
      requests = 7\<rparr>"

definition client_after_second_pass :: client where
  "client_after_second_pass =
     \<lparr>market_cache = [''BTCUSDT'' \<mapsto> btc_market\<lparr>last_price := Some 104\<rparr>],
      market_cache_time = [''BTCUSDT'' \<mapsto> 1010],
      balance_cache = None, balance_cache_time = 0,
      position_cache = [''BTCUSDT'' \<mapsto> OnePosition btc_position],
      position_cache_time = [''BTCUSDT'' \<mapsto> 1010],
      calls = [SetMarginMode ''cross'' ''BTCUSDT'', SetLeverage 50 ''BTCUSDT'',
               CreateOrder (stop_request (472 / 1000) 103),
               SetMarginMode ''cross'' ''BTCUSDT'', SetLeverage 50 ''BTCUSDT'',
               CreateOrder (stop_request (481 / 1000) 102)],
      requests = 14\<rparr>"

text \<open>A long signal with three take-profit levels, the first of them already hit, and
  the close order with a given quantity.\<close>

definition laddered_signal :: TradingSignal where
  "laddered_signal =
     \<lparr>exchange = ''BINANCE'', symbol = ''BTCUSDT'', action = ''OPEN_LONG'',
      entry_price = Some 100, entry_zones = [],
      take_profit_levels =
        [\<lparr>tp_price = 110, tp_percentage = 4 / 10, is_hit = True, hit_time = Some 900\<rparr>,
         mk_tp 120 (1 / 2), mk_tp 130 (1 / 10)],
      stop_loss = Some 98, position_size = 50, leverage = 10, margin_mode = ''cross'',
      confidence = 8 / 10, risk_level = ''MEDIUM'', dynamic_sl = False\<rparr>"

definition close_request :: "real \<Rightarrow> order_request" where
  "close_request quantity =
     \<lparr>rq_symbol = ''BTCUSDT'', rq_type = MARKET, rq_side = SELL, rq_amount = quantity,
      rq_price = None, rq_stopPrice = None, rq_reduceOnly = True\<rparr>"

section \<open>Properties of the message pipeline\<close>

lemmas pipeline_defs =
  process_message_def validate_json_data_def normalize_numbers_def
  convert_to_trading_signal_def convert_entry_def convert_take_profits_def
  convert_stop_loss_def construct_signal_def tp_data_def renormalize_def isclose_def
  is_valid_def mk_tp_def mk_zone_def py_int_def

text \<open>
  C1. The claim: a risk/reward ratio of at least 1.5 is necessary for the pipeline to
  return a signal, and a candidate with ratio 1.2 is rejected. The pipeline's risk check
  is the constant True, so the candidate with entry 100, stop-loss 95 and take-profit
  106 (ratio 1.2) is returned as a signal, although \<open>_validate_risk_ratio\<close> rejects that
  very signal.
\<close>

theorem process_message_returns_rr12:
  "process_message (Some rr12_candidate) = Some rr12_signal
   \<and> validate_risk_ratio rr12_signal = False
   \<and> (py_max (map tp_price (take_profit_levels rr12_signal)) - 100) / (100 - 95) = 12 / 10"
  by (simp add: rr12_candidate_def rr12_signal_def pipeline_defs validate_risk_ratio_def
      entry_reference_def)

subsection \<open>Entry zones pass through the normalizer unchanged\<close>

lemma build_items_numeric: "build_items zs = Inr ps \<Longrightarrow> ps = numeric_items zs"
proof (induction zs arbitrary: ps)
  case Nil
  then show ?case by simp
next
  case (Cons z zs)
  show ?case
  proof (cases "d_price z")
    case None
    with Cons show ?thesis by simp
  next
    case (Some pv)
    note pv = Some
    show ?thesis
    proof (cases "d_percentage z")
      case None
      with Cons pv show ?thesis
        by (auto split: sum.splits if_splits)
    next
      case (Some qv)
      with Cons pv show ?thesis
        by (auto split: sum.splits if_splits)
    qed
  qed
qed

text \<open>The conversion in place changes how an item is written, not what it is worth: the
  numeric items of a list are the same before and after \<open>_normalize_numbers\<close>, also
  when the loop was left half way.\<close>

lemma convert_items_numeric: "numeric_items (fst (convert_items zs)) = numeric_items zs"
proof (induction zs)
  case Nil
  then show ?case by simp
next
  case (Cons z zs)
  then show ?case
    by (cases "convert_items zs") (auto split: option.splits sum.splits)
qed

lemma normalize_zones:
  "c_entry_zones (normalize_numbers d) = fst (convert_field (c_entry_zones d))"
  by (simp add: normalize_numbers_def split: prod.splits)

lemma convert_field_items:
  "fst (convert_field f) = Some (Items zs') \<Longrightarrow>
   \<exists>zs. f = Some (Items zs) \<and> zs' = fst (convert_items zs)"
  by (cases f rule: convert_field.cases) (auto split: prod.splits)

lemma construct_signal_zones:
  "construct_signal d ex sy ac entry zones tps sl = Some s \<Longrightarrow> entry_zones s = zones"
  by (auto simp: construct_signal_def split: sum.splits)

lemma convert_entry_zones:
  "convert_entry d = Inr (entry, zones) \<Longrightarrow> zones \<noteq> [] \<Longrightarrow>
   \<exists>zs. c_entry_zones d = Some (Items zs) \<and>
        zones = map (\<lambda>(p, q). mk_zone p q) (numeric_items zs)"
  unfolding convert_entry_def
  by (auto simp del: build_items.simps
           split: option.splits items_field.splits list.splits sum.splits jval.splits
           dest!: build_items_numeric)

lemma convert_signal_zones:
  assumes "convert_to_trading_signal d = Some s" "entry_zones s \<noteq> []"
  shows "\<exists>zs. c_entry_zones d = Some (Items zs) \<and>
              entry_zones s = map (\<lambda>(p, q). mk_zone p q) (numeric_items zs)"
proof -
  from assms(1) obtain ex sy ac entry zones tps where
    ce: "convert_entry d = Inr (entry, zones)" and
    cs: "construct_signal d ex sy ac entry zones tps (convert_stop_loss d) = Some s"
    unfolding convert_to_trading_signal_def
    by (auto split: option.splits sum.splits if_splits prod.splits)
  from cs have "entry_zones s = zones" by (rule construct_signal_zones)
  with assms(2) ce show ?thesis using convert_entry_zones by blast
qed

lemma process_message_Some:
  "process_message (Some d) = Some s \<Longrightarrow>
   convert_to_trading_signal (normalize_numbers d) = Some s"
  by (auto simp: process_message_def split: if_splits option.splits)

lemma zone_pairs_of_map:
  "map (\<lambda>z. (zone_price z, zone_percentage z)) (map (\<lambda>(p, q). mk_zone p q) ps) = ps"
  by (induction ps) (auto simp: mk_zone_def)

lemma zones_candidate_accepted: "process_message (Some zones_candidate) = Some zones_signal"
  by (simp add: zones_candidate_def zones_signal_def pipeline_defs)

lemma zones_signal_zones:
  "entry_zones zones_signal = [mk_zone 100 (5 / 10), mk_zone 99 (3 / 10)]"
  by (simp add: zones_signal_def)

text \<open>
  C5, as the claim states it: every accepted signal with entry zones has zone percentages
  that sum to 1 within 1e-5. The candidate with zone percentages 0.5 and 0.3 is accepted
  and its signal's zone percentages sum to 0.8.
\<close>

theorem zone_percentages_not_normalized:
  "process_message (Some zones_candidate) = Some zones_signal
   \<and> entry_zones zones_signal \<noteq> []
   \<and> sum_list (map zone_percentage (entry_zones zones_signal)) = 8 / 10
   \<and> \<not> \<bar>sum_list (map zone_percentage (entry_zones zones_signal)) - 1\<bar> \<le> 1 / 100000"
  by (simp add: zones_candidate_accepted zones_signal_zones mk_zone_def)

text \<open>
  C5, amended: for every signal with entry zones that the normalizer accepts, the zones
  are the candidate's numeric zone items in order, prices and percentages unchanged; so
  the sum of the zones' percentages is the sum the candidate supplied, and nothing
  renormalizes it.
\<close>

theorem entry_zone_percentages_preserved:
  assumes "process_message (Some d) = Some s" and "entry_zones s \<noteq> []"
  shows "\<exists>zs. c_entry_zones d = Some (Items zs) \<and>
           map (\<lambda>z. (zone_price z, zone_percentage z)) (entry_zones s) = numeric_items zs \<and>
           sum_list (map zone_percentage (entry_zones s)) = sum_list (map snd (numeric_items zs))"
proof -
  from assms(1) have "convert_to_trading_signal (normalize_numbers d) = Some s"
    by (rule process_message_Some)
  from convert_signal_zones[OF this assms(2)] obtain zs' where
    zs': "c_entry_zones (normalize_numbers d) = Some (Items zs')" and
    ez': "entry_zones s = map (\<lambda>(p, q). mk_zone p q) (numeric_items zs')"
    by blast
  from zs' obtain zs where
    zs: "c_entry_zones d = Some (Items zs)" and conv: "zs' = fst (convert_items zs)"
    using convert_field_items [of "c_entry_zones d" zs'] by (auto simp: normalize_zones)
  from ez' have ez: "entry_zones s = map (\<lambda>(p, q). mk_zone p q) (numeric_items zs)"
    by (simp only: conv convert_items_numeric)
  have pairs: "map (\<lambda>z. (zone_price z, zone_percentage z)) (entry_zones s) = numeric_items zs"
    by (simp only: ez zone_pairs_of_map)
  have "map zone_percentage (entry_zones s)
        = map snd (map (\<lambda>z. (zone_price z, zone_percentage z)) (entry_zones s))"
    by simp
  then have "map zone_percentage (entry_zones s) = map snd (numeric_items zs)"
    by (simp only: pairs)
  with zs pairs show ?thesis by simp
qed

theorem entry_zone_percentages_preserved_witness:
  "\<exists>zs. c_entry_zones zones_candidate = Some (Items zs) \<and>
     map (\<lambda>z. (zone_price z, zone_percentage z)) (entry_zones zones_signal) = numeric_items zs \<and>
     sum_list (map zone_percentage (entry_zones zones_signal))
       = sum_list (map snd (numeric_items zs))"
proof -
  have nonempty: "entry_zones zones_signal \<noteq> []"
    by (simp add: zones_signal_zones)
  show ?thesis
    by (rule entry_zone_percentages_preserved [OF zones_candidate_accepted nonempty])
qed

subsection \<open>The default take-profit ladder\<close>

text \<open>
  C9. For a signal with entry price \<open>e\<close> and stop-loss \<open>sl\<close>, with \<open>d = |e - sl|\<close>, the
  default ladder is the three levels \<open>e + 2d\<close>, \<open>e + 3d\<close>, \<open>e + 4d\<close> with
  percentages 0.4, 0.3, 0.3 for OPEN_LONG, and \<open>e - 2d\<close>, \<open>e - 3d\<close>, \<open>e - 4d\<close>
  for OPEN_SHORT. The entry price is the signal's own: the source takes the mean of the
  zone prices instead when the entry price is 0.0 and the signal also has zones, so
  "with entry price \<open>e\<close>" is read as the source reads it, \<open>e\<close> non-zero or no zones.
\<close>

theorem default_take_profit_ladder:
  assumes "entry_price s = Some e" and "e \<noteq> 0 \<or> entry_zones s = []"
    and "stop_loss s = Some sl"
  shows "(action s = ''OPEN_LONG'' \<longrightarrow>
            calculate_default_take_profits s =
              [mk_tp (e + 2 * \<bar>e - sl\<bar>) (4 / 10), mk_tp (e + 3 * \<bar>e - sl\<bar>) (3 / 10),
               mk_tp (e + 4 * \<bar>e - sl\<bar>) (3 / 10)])
       \<and> (action s = ''OPEN_SHORT'' \<longrightarrow>
            calculate_default_take_profits s =
              [mk_tp (e - 2 * \<bar>e - sl\<bar>) (4 / 10), mk_tp (e - 3 * \<bar>e - sl\<bar>) (3 / 10),
               mk_tp (e - 4 * \<bar>e - sl\<bar>) (3 / 10)])"
proof -
  from assms(1,2) have er: "entry_reference s = Some e"
    by (auto simp: entry_reference_def)
  have unfolded: "calculate_default_take_profits s =
        (let stop_distance = \<bar>e - sl\<bar> in
           map (\<lambda>(mult, pct).
                  mk_tp (if action s = ''OPEN_LONG'' then e + stop_distance * mult
                         else e - stop_distance * mult) pct)
               (zip [2, 3, 4] [4 / 10, 3 / 10, 3 / 10]))"
    by (simp only: calculate_default_take_profits_def er assms(3) prod.case option.case)
  have zipped: "zip [2::real, 3, 4] [4 / 10, 3 / 10, 3 / 10::real]
                = [(2, 4 / 10), (3, 3 / 10), (4, 3 / 10)]"
    by (simp only: zip_Cons_Cons zip_Nil)
  have levels: "calculate_default_take_profits s =
       [mk_tp (if action s = ''OPEN_LONG'' then e + \<bar>e - sl\<bar> * 2
               else e - \<bar>e - sl\<bar> * 2) (4 / 10),
        mk_tp (if action s = ''OPEN_LONG'' then e + \<bar>e - sl\<bar> * 3
               else e - \<bar>e - sl\<bar> * 3) (3 / 10),
        mk_tp (if action s = ''OPEN_LONG'' then e + \<bar>e - sl\<bar> * 4
               else e - \<bar>e - sl\<bar> * 4) (3 / 10)]"
    by (simp only: unfolded zipped Let_def list.map prod.case)
  have differ: "''OPEN_SHORT'' \<noteq> ''OPEN_LONG''"
    by simp
  have long: "action s = ''OPEN_LONG'' \<Longrightarrow> calculate_default_take_profits s =
       [mk_tp (e + 2 * \<bar>e - sl\<bar>) (4 / 10), mk_tp (e + 3 * \<bar>e - sl\<bar>) (3 / 10),
        mk_tp (e + 4 * \<bar>e - sl\<bar>) (3 / 10)]"
    by (simp only: levels if_True refl mult.commute [of _ "\<bar>e - sl\<bar>"])
  have short: "action s = ''OPEN_SHORT'' \<Longrightarrow> calculate_default_take_profits s =
       [mk_tp (e - 2 * \<bar>e - sl\<bar>) (4 / 10), mk_tp (e - 3 * \<bar>e - sl\<bar>) (3 / 10),
        mk_tp (e - 4 * \<bar>e - sl\<bar>) (3 / 10)]"
    by (simp only: levels differ if_False refl mult.commute [of _ "\<bar>e - sl\<bar>"])
  from long short show ?thesis by blast
qed

theorem default_take_profit_ladder_witness:
  "action long_100_98 = ''OPEN_LONG'' \<and> entry_price long_100_98 = Some 100
   \<and> stop_loss long_100_98 = Some 98
   \<and> calculate_default_take_profits long_100_98 =
       [mk_tp 104 (4 / 10), mk_tp 106 (3 / 10), mk_tp 108 (3 / 10)]"
  using default_take_profit_ladder [of long_100_98 100 98]
  by (simp add: long_100_98_def)

section \<open>Properties of the exchange client\<close>

subsection \<open>Balance\<close>

lemma zero_balance_fields:
  "total_equity zero_balance = 0 \<and> used_margin zero_balance = 0 \<and> free_margin zero_balance = 0
   \<and> margin_ratio zero_balance = 0 \<and> unrealized_pnl zero_balance = 0
   \<and> realized_pnl zero_balance = 0"
  by (simp add: zero_balance_def)

lemma get_balance_handler:
  "fst (get_balance_try be now cl) = Inl e \<Longrightarrow> fst (get_balance be now cl) = zero_balance"
  by (cases "get_balance_try be now cl") (simp add: get_balance_def)

text \<open>
  C8. \<open>get_balance\<close> never raises: its handler turns every exception of the body into
  \<open>AccountBalance()\<close> (lemma \<open>get_balance_handler\<close>). When the balance fetch fails
  (the cache holding no fresh balance, so that the fetch takes place), the body raises
  and \<open>get_balance\<close> returns the balance whose six fields are zero; the client is as
  before, one request later.
\<close>

theorem get_balance_zero_on_failure:
  assumes f: "fetchBalance be (requests cl) = Inl e"
    and miss: "balance_cache cl = None \<or> \<not> now - balance_cache_time cl < CACHE_DURATION"
  shows "get_balance_try be now cl = (Inl e, cl\<lparr>requests := Suc (requests cl)\<rparr>)
       \<and> get_balance be now cl = (zero_balance, cl\<lparr>requests := Suc (requests cl)\<rparr>)
       \<and> total_equity (fst (get_balance be now cl)) = 0
       \<and> used_margin (fst (get_balance be now cl)) = 0
       \<and> free_margin (fst (get_balance be now cl)) = 0
       \<and> margin_ratio (fst (get_balance be now cl)) = 0
       \<and> unrealized_pnl (fst (get_balance be now cl)) = 0
       \<and> realized_pnl (fst (get_balance be now cl)) = 0"
proof -
  from miss have m: "(if now - balance_cache_time cl < CACHE_DURATION then balance_cache cl
                      else None) = None"
    by auto
  have t: "get_balance_try be now cl = (Inl e, cl\<lparr>requests := Suc (requests cl)\<rparr>)"
    by (simp add: get_balance_try_def m f tick_def)
  have g: "get_balance be now cl = (zero_balance, cl\<lparr>requests := Suc (requests cl)\<rparr>)"
    by (simp add: get_balance_def t)
  show ?thesis
    by (simp add: t g zero_balance_fields)
qed

theorem get_balance_zero_on_failure_witness:
  "get_balance test_backend 1000 empty_client = (zero_balance, empty_client\<lparr>requests := 1\<rparr>)
   \<and> total_equity (fst (get_balance test_backend 1000 empty_client)) = 0"
proof -
  have f: "fetchBalance test_backend (requests empty_client) = Inl (ExchangeError ''timeout'')"
    by (simp add: test_backend_def)
  have m: "balance_cache empty_client = None
           \<or> \<not> 1000 - balance_cache_time empty_client < CACHE_DURATION"
    by (simp add: empty_client_def)
  have r: "Suc (requests empty_client) = 1"
    by (simp add: empty_client_def)
  from get_balance_zero_on_failure [OF f m] show ?thesis
    unfolding r by blast
qed

subsection \<open>Positions\<close>

lemma collect_test:
  "collect_positions 1000 [btc_raw, eth_raw] [] (tick empty_client)
   = (Inr [btc_position, eth_position],
      cached_client\<lparr>position_cache := (position_cache cached_client)(''all'' := None),
                    position_cache_time := (position_cache_time cached_client)(''all'' := None)\<rparr>)"
  by (simp add: btc_raw_def eth_raw_def btc_position_def eth_position_def empty_client_def
      cached_client_def from_exchange_position_def float_or_zero_def py_or_def get_or_def
      py_int_def tick_def fun_upd_twist)

text \<open>
  C10. The shape of what \<open>get_positions\<close> returns depends on the cache. Called with no
  symbol while a fresh \<open>'all'\<close> entry holds the list \<open>ps\<close>, it returns the one-element
  list \<open>[ps]\<close>; a fresh entry under the symbol asked for gives the one-element list of
  that position; on a miss the result is the flat list of the positions fetched.
\<close>

theorem get_positions_shape:
  "(\<not> given symb \<longrightarrow> position_cache cl ''all'' = Some (PositionList ps) \<longrightarrow>
      now - time_of (position_cache_time cl) ''all'' < CACHE_DURATION \<longrightarrow>
      get_positions be now cl symb = ([PositionList ps], cl))
   \<and> (given symb \<longrightarrow> position_cache cl (the symb) = Some (OnePosition p) \<longrightarrow>
      now - time_of (position_cache_time cl) (the symb) < CACHE_DURATION \<longrightarrow>
      get_positions be now cl symb = ([OnePosition p], cl))
   \<and> (\<not> now - time_of (position_cache_time cl) (cache_key symb) < CACHE_DURATION
        \<or> position_cache cl (cache_key symb) = None \<longrightarrow>
      fetchPositions be (requests cl) (if given symb then symb else None) = Inr raws \<longrightarrow>
      collect_positions now raws [] (tick cl) = (Inr result, cl1) \<longrightarrow>
      fst (get_positions be now cl symb) = map OnePosition result)"
proof (intro conjI impI)
  assume "\<not> given symb" and c: "position_cache cl ''all'' = Some (PositionList ps)"
    and t: "now - time_of (position_cache_time cl) ''all'' < CACHE_DURATION"
  then have k: "cache_key symb = ''all''"
    by (cases symb) (auto simp: cache_key_def)
  show "get_positions be now cl symb = ([PositionList ps], cl)"
    by (simp add: get_positions_def k c t)
next
  assume g: "given symb" and c: "position_cache cl (the symb) = Some (OnePosition p)"
    and t: "now - time_of (position_cache_time cl) (the symb) < CACHE_DURATION"
  from g have k: "cache_key symb = the symb"
    by (cases symb) (auto simp: cache_key_def)
  show "get_positions be now cl symb = ([OnePosition p], cl)"
    by (simp add: get_positions_def k c t)
next
  assume miss: "\<not> now - time_of (position_cache_time cl) (cache_key symb) < CACHE_DURATION
        \<or> position_cache cl (cache_key symb) = None"
    and f: "fetchPositions be (requests cl) (if given symb then symb else None) = Inr raws"
    and c: "collect_positions now raws [] (tick cl) = (Inr result, cl1)"
  from miss have m: "(if now - time_of (position_cache_time cl) (cache_key symb) < CACHE_DURATION
            then position_cache cl (cache_key symb) else None) = None"
    by auto
  show "fst (get_positions be now cl symb) = map OnePosition result"
    unfolding get_positions_def m by (simp add: f c)
qed

theorem get_positions_shape_witness:
  "fst (get_positions test_backend 1000 empty_client None)
     = [OnePosition btc_position, OnePosition eth_position]
   \<and> get_positions test_backend 1001 cached_client None
     = ([PositionList [btc_position, eth_position]], cached_client)
   \<and> get_positions test_backend 1001 cached_client (Some ''BTCUSDT'')
     = ([OnePosition btc_position], cached_client)"
proof -
  have miss: "\<not> 1000 - time_of (position_cache_time empty_client) (cache_key None) < CACHE_DURATION
        \<or> position_cache empty_client (cache_key None) = None"
    by (simp add: empty_client_def)
  have fetch: "fetchPositions test_backend (requests empty_client)
                 (if given None then None else None)
               = Inr [btc_raw, eth_raw]"
    by (simp add: test_backend_def)
  have a: "fst (get_positions test_backend 1000 empty_client None)
     = map OnePosition [btc_position, eth_position]"
    using get_positions_shape [THEN conjunct2, THEN conjunct2, rule_format,
        OF miss fetch collect_test] .
  have all_cached: "position_cache cached_client ''all''
                    = Some (PositionList [btc_position, eth_position])"
    and all_fresh: "1001 - time_of (position_cache_time cached_client) ''all'' < CACHE_DURATION"
    by (simp_all add: cached_client_def time_of_def CACHE_DURATION_def)
  have not_given: "\<not> given None" by simp
  have b: "get_positions test_backend 1001 cached_client None
     = ([PositionList [btc_position, eth_position]], cached_client)"
    using get_positions_shape [THEN conjunct1, rule_format, OF not_given all_cached all_fresh] .
  have is_given: "given (Some ''BTCUSDT'')" by simp
  have btc_cached: "position_cache cached_client (the (Some ''BTCUSDT''))
                    = Some (OnePosition btc_position)"
    and btc_fresh: "1001 - time_of (position_cache_time cached_client) (the (Some ''BTCUSDT''))
                    < CACHE_DURATION"
    by (simp_all add: cached_client_def time_of_def CACHE_DURATION_def)
  have c: "get_positions test_backend 1001 cached_client (Some ''BTCUSDT'')
     = ([OnePosition btc_position], cached_client)"
    using get_positions_shape [THEN conjunct2, THEN conjunct1, rule_format,
        OF is_given btc_cached btc_fresh] .
  from a b c show ?thesis by simp
qed

subsection \<open>Rounding of amounts\<close>




lemma test_max_leverage:
  "max_leverage_of (fetchMarketLeverageTiers test_backend n s) = 100"
  by (simp add: max_leverage_of_def test_backend_def get_or_def py_int_def)

lemma test_market_info:
  "get_market_info test_backend 1000 empty_client ''BTCUSDT'' = (Some btc_market, market_client)"
  by (simp add: get_market_info_def test_backend_def empty_client_def market_client_def
      time_of_def CACHE_DURATION_def tick_def)

lemma test_market_info_again:
  "get_market_info test_backend 1000 (market_client\<lparr>calls := cs, requests := n\<rparr>) ''BTCUSDT''
   = (Some btc_market, market_client\<lparr>calls := cs, requests := n\<rparr>)"
  by (simp add: get_market_info_def market_client_def empty_client_def
      time_of_def CACHE_DURATION_def)



lemma format_fixed_1_5: "format_fixed up 3 (1 / 5) = 1 / 5"
  by (simp add: format_fixed_def round_nearest_def Let_def)




subsection \<open>Leverage\<close>

lemma set_leverage_Inr:
  assumes "set_leverage be cl symb lev mode = (Inr a, cl2)"
  shows "a = min lev (max_leverage_of (fetchMarketLeverageTiers be (requests cl) symb))
       \<and> cl2 = cl\<lparr>calls := calls cl @ [SetMarginMode mode symb, SetLeverage a symb],
                  requests := requests cl + 3\<rparr>"
  using assms unfolding set_leverage_def get_market_leverage_info_def Let_def
  by (auto simp: tick_def send_def split: sum.splits)

lemma get_market_info_calls: "calls (snd (get_market_info be now cl symb)) = calls cl"
  unfolding get_market_info_def by (auto simp: tick_def split: option.splits)

text \<open>Within one moment of the clock a market that was just delivered is delivered
  again from the cache, with no request.\<close>

lemma get_market_info_again:
  assumes "get_market_info be now cl symb = (Some mi, cl1)"
    and "market_cache cl2 = market_cache cl1"
    and "market_cache_time cl2 = market_cache_time cl1"
  shows "get_market_info be now cl2 symb = (Some mi, cl2)"
  using assms unfolding get_market_info_def
  by (auto simp: tick_def time_of_def CACHE_DURATION_def split: option.splits if_splits)

lemma convert_Inr:
  assumes "convert_amount_to_contracts be now cl symb usdt price lev = (Inr (q, info), cl3)"
  shows "\<exists>mi cl1. get_market_info be now cl symb = (Some mi, cl1) \<and> cl3 = tick cl1
       \<and> q = format_amount be (tick cl1) symb
               (usdt * of_int (min lev (max_leverage_of
                                          (fetchMarketLeverageTiers be (requests cl1) symb)))
                / price)
       \<and> ci_leverage info
           = min lev (max_leverage_of (fetchMarketLeverageTiers be (requests cl1) symb))"
  using assms unfolding convert_amount_to_contracts_def get_market_leverage_info_def Let_def
  by (auto split: prod.splits option.splits if_splits)

lemma submit_order_Inr:
  assumes "submit_order be cl order use_price quantity = (Inr result, cl')"
  shows "cl' = send cl (CreateOrder (order_params cl order quantity))
       \<and> executed_amount result = Some quantity \<and> success result"
  using assms unfolding submit_order_def Let_def
  by (auto split: sum.splits option.splits)

lemma create_order_sizing:
  assumes co: "create_order be now cl order = (Inr result, cl')"
  shows "\<exists>req mi lastp cl1 cl4 a.
           get_market_info be now cl (op_symbol order) = (Some mi, cl1)
         \<and> last_price mi = Some lastp
         \<and> a = min (order_leverage order)
                   (max_leverage_of
                      (fetchMarketLeverageTiers be (requests cl1) (op_symbol order)))
         \<and> calls cl' = calls cl @
             [SetMarginMode (op_margin_mode order) (op_symbol order),
              SetLeverage a (op_symbol order), CreateOrder req]
         \<and> requests cl4 = requests cl1 + 4 \<and> market_cache cl4 = market_cache cl1
         \<and> rq_amount req = format_amount be cl4 (op_symbol order)
              (op_amount order
               * of_int (min a (max_leverage_of
                                  (fetchMarketLeverageTiers be (requests cl1 + 3)
                                     (op_symbol order))))
               / use_price_of order lastp)
         \<and> executed_amount result = Some (rq_amount req)"
proof -
  let ?s = "op_symbol order"
  from co obtain mi cl1 lastp a cl2 q info cl3 where
    gm: "get_market_info be now cl ?s = (Some mi, cl1)" and
    lp: "last_price mi = Some lastp" and
    sl: "set_leverage be cl1 ?s (order_leverage order) (op_margin_mode order) = (Inr a, cl2)" and
    cv: "convert_amount_to_contracts be now cl2 ?s (op_amount order) (use_price_of order lastp) a
         = (Inr (q, info), cl3)" and
    so: "submit_order be cl3 order (use_price_of order lastp) q = (Inr result, cl')"
    unfolding create_order_def Let_def
    by (auto split: if_splits prod.splits option.splits sum.splits)
  from set_leverage_Inr [OF sl] have
    a: "a = min (order_leverage order)
              (max_leverage_of (fetchMarketLeverageTiers be (requests cl1) ?s))"
    and cl2: "cl2 = cl1\<lparr>calls := calls cl1 @ [SetMarginMode (op_margin_mode order) ?s,
                                              SetLeverage a ?s],
                        requests := requests cl1 + 3\<rparr>"
    by simp_all
  from gm have c1: "calls cl1 = calls cl"
    using get_market_info_calls [of be now cl ?s] by simp
  have again: "get_market_info be now cl2 ?s = (Some mi, cl2)"
    by (rule get_market_info_again [OF gm]) (simp_all add: cl2)
  from convert_Inr [OF cv] have cl3: "cl3 = tick cl2"
    and q: "q = format_amount be (tick cl2) ?s
        (op_amount order
         * of_int (min a (max_leverage_of (fetchMarketLeverageTiers be (requests cl2) ?s)))
         / use_price_of order lastp)"
    by (simp_all add: again)
  have r2: "requests cl2 = requests cl1 + 3"
    by (simp add: cl2)
  from submit_order_Inr [OF so] have
    cl': "cl' = send cl3 (CreateOrder (order_params cl3 order q))"
    and ea: "executed_amount result = Some q"
    by simp_all
  have calls: "calls cl' = calls cl @
             [SetMarginMode (op_margin_mode order) ?s, SetLeverage a ?s,
              CreateOrder (order_params cl3 order q)]"
    by (simp add: cl' cl3 cl2 c1 send_def tick_def)
  have r4: "requests (tick cl2) = requests cl1 + 4"
    and m4: "market_cache (tick cl2) = market_cache cl1"
    by (simp_all add: cl2 tick_def)
  have amt: "rq_amount (order_params cl3 order q) = format_amount be (tick cl2) ?s
              (op_amount order
               * of_int (min a (max_leverage_of
                                  (fetchMarketLeverageTiers be (requests cl1 + 3) ?s)))
               / use_price_of order lastp)"
    using q by (simp add: order_params_def r2)
  have ea': "executed_amount result = Some (rq_amount (order_params cl3 order q))"
    by (simp add: ea order_params_def)
  from gm lp a calls r4 m4 amt ea' show ?thesis
    by blast
qed

lemma create_order_125:
  "create_order test_backend 1000 empty_client limit_order_125
   = (Inr \<lparr>success = True, res_order_id = Some ''1'', executed_price = Some 50000,
           executed_amount = Some (1 / 5), error_message = None\<rparr>,
      market_client\<lparr>calls :=
        [SetMarginMode ''cross'' ''BTCUSDT'', SetLeverage 100 ''BTCUSDT'',
         CreateOrder \<lparr>rq_symbol = ''BTCUSDT'', rq_type = LIMIT, rq_side = BUY,
                      rq_amount = 1 / 5, rq_price = Some 50000, rq_stopPrice = None,
                      rq_reduceOnly = False\<rparr>],
        requests := 6\<rparr>)"
  by (simp add: create_order_def validate_def get_market_info_def set_leverage_def
      convert_amount_to_contracts_def get_market_leverage_info_def max_leverage_of_def
      get_or_def py_int_def format_amount_def format_fixed_def round_nearest_def
      submit_order_def order_params_def format_price_def order_leverage_def use_price_of_def
      time_of_def CACHE_DURATION_def tick_def send_def Let_def
      test_backend_def empty_client_def market_client_def btc_market_def limit_order_125_def)

text \<open>
  C6, as the claim states it: the leverage applied is the smaller of the requested
  leverage and the exchange's maximum, and the order is sized with that value. The
  maximum is taken from one fetch of the leverage tiers, and the sizing from another:
  \<^item> when the fetch made by \<open>set_leverage\<close> raises, a request of 10 is applied as 1,
    although the exchange reports the tiers 100 and 50 one request later;
  \<^item> when the exchange reports the tiers 50 and 100 in this order, a request of 75 is
    applied as 50;
  \<^item> when the fetch made by \<open>convert_amount_to_contracts\<close> raises, a request of 125 is
    applied as 100 and the order for 100 USDT at 50000 is sized with leverage 1: 0.002
    instead of 0.2;
  \<^item> when the exchange refuses the margin mode, \<open>set_leverage\<close> raises: it returns no
    leverage and sets none.
\<close>

theorem leverage_cap_follows_each_fetch:
  "set_leverage (failing_tiers_backend 0) empty_client ''BTCUSDT'' 10 ''cross''
     = (Inr 1, empty_client\<lparr>calls := [SetMarginMode ''cross'' ''BTCUSDT'',
                                        SetLeverage 1 ''BTCUSDT''],
                             requests := 3\<rparr>)
   \<and> fetchMarketLeverageTiers (failing_tiers_backend 0) 1 ''BTCUSDT''
       = Inr (TierList [\<lparr>maxLeverage = Some (Num 100)\<rparr>, \<lparr>maxLeverage = Some (Num 50)\<rparr>])
   \<and> (1 :: int) \<noteq> min 10 100
   \<and> set_leverage rising_tiers_backend empty_client ''BTCUSDT'' 75 ''cross''
       = (Inr 50, empty_client\<lparr>calls := [SetMarginMode ''cross'' ''BTCUSDT'',
                                           SetLeverage 50 ''BTCUSDT''],
                                requests := 3\<rparr>)
   \<and> (50 :: int) \<noteq> min 75 100
   \<and> create_order (failing_tiers_backend 4) 1000 empty_client limit_order_125
       = (Inr \<lparr>success = True, res_order_id = Some ''1'', executed_price = Some 50000,
               executed_amount = Some (1 / 500), error_message = None\<rparr>,
          market_client\<lparr>calls :=
            [SetMarginMode ''cross'' ''BTCUSDT'', SetLeverage 100 ''BTCUSDT'',
             CreateOrder \<lparr>rq_symbol = ''BTCUSDT'', rq_type = LIMIT, rq_side = BUY,
                          rq_amount = 1 / 500, rq_price = Some 50000, rq_stopPrice = None,
                          rq_reduceOnly = False\<rparr>],
            requests := 6\<rparr>)
   \<and> (1 / 500 :: real) \<noteq> 100 * 100 / 50000
   \<and> set_leverage refusing_mode_backend empty_client ''BTCUSDT'' 10 ''cross''
       = (Inl (ExchangeError ''refused''),
          empty_client\<lparr>calls := [SetMarginMode ''cross'' ''BTCUSDT''], requests := 2\<rparr>)"
  by (simp add: create_order_def validate_def get_market_info_def set_leverage_def
      convert_amount_to_contracts_def get_market_leverage_info_def max_leverage_of_def
      get_or_def py_int_def format_amount_def format_fixed_def round_nearest_def
      submit_order_def order_params_def format_price_def order_leverage_def use_price_of_def
      time_of_def CACHE_DURATION_def tick_def send_def Let_def
      failing_tiers_backend_def rising_tiers_backend_def refusing_mode_backend_def
      test_backend_def empty_client_def market_client_def btc_market_def limit_order_125_def)

text \<open>
  C6, amended. When the exchange accepts the two requests, \<open>set_leverage\<close> sends the
  margin mode first and the leverage second, and the leverage it sends and returns is
  the requested one capped at what its own fetch of the leverage tiers gave: the
  \<open>maxLeverage\<close> of the first tier reported (1 when that tier has none, or one that
  \<open>int()\<close> rejects), and 1 when the fetch raised or reported no tier. An order that
  \<open>create_order\<close> places is sized with the leverage so applied, capped once more at
  what a second fetch of the tiers gives, three requests later: the amount submitted is
  the formatted value of USDT amount times that leverage over the price used.
\<close>

theorem set_leverage_caps_at_reported_maximum:
  "(setMarginMode be (requests cl + 1) mode symb = Inr () \<longrightarrow>
    setLeverage be (requests cl + 2)
      (min lev (max_leverage_of (fetchMarketLeverageTiers be (requests cl) symb))) symb
      = Inr () \<longrightarrow>
    (\<exists>a. set_leverage be cl symb lev mode
            = (Inr a, cl\<lparr>calls := calls cl @ [SetMarginMode mode symb, SetLeverage a symb],
                         requests := requests cl + 3\<rparr>)
        \<and> (\<forall>t ts. fetchMarketLeverageTiers be (requests cl) symb = Inr (TierList (t # ts)) \<longrightarrow>
              a = min lev (case maxLeverage t of
                             None \<Rightarrow> 1
                           | Some v \<Rightarrow> (case py_int_of v of Inr m \<Rightarrow> m | Inl e \<Rightarrow> 1)))
        \<and> ((\<exists>e. fetchMarketLeverageTiers be (requests cl) symb = Inl e)
             \<or> fetchMarketLeverageTiers be (requests cl) symb = Inr NotTierList
             \<or> fetchMarketLeverageTiers be (requests cl) symb = Inr (TierList []) \<longrightarrow>
            a = min lev 1)))
   \<and> (\<forall>now order result cl'.
         create_order be now cl order = (Inr result, cl') \<longrightarrow>
         op_symbol order = symb \<longrightarrow> order_leverage order = lev \<longrightarrow>
         op_margin_mode order = mode \<longrightarrow>
         (\<exists>req mi lastp cl1 cl4 a.
             get_market_info be now cl symb = (Some mi, cl1)
           \<and> last_price mi = Some lastp
           \<and> a = min lev (max_leverage_of (fetchMarketLeverageTiers be (requests cl1) symb))
           \<and> calls cl' = calls cl @
               [SetMarginMode mode symb, SetLeverage a symb, CreateOrder req]
           \<and> requests cl4 = requests cl1 + 4 \<and> market_cache cl4 = market_cache cl1
           \<and> rq_amount req = format_amount be cl4 symb
                (op_amount order
                 * of_int (min a (max_leverage_of
                                    (fetchMarketLeverageTiers be (requests cl1 + 3) symb)))
                 / use_price_of order lastp)
           \<and> executed_amount result = Some (rq_amount req)))"
proof (intro conjI allI impI)
  let ?a = "min lev (max_leverage_of (fetchMarketLeverageTiers be (requests cl) symb))"
  assume mm: "setMarginMode be (requests cl + 1) mode symb = Inr ()"
    and sl: "setLeverage be (requests cl + 2) ?a symb = Inr ()"
  have run: "set_leverage be cl symb lev mode
            = (Inr ?a, cl\<lparr>calls := calls cl @ [SetMarginMode mode symb, SetLeverage ?a symb],
                          requests := requests cl + 3\<rparr>)"
    using mm sl
    by (simp add: set_leverage_def get_market_leverage_info_def tick_def send_def Let_def)
  have tiers: "\<forall>t ts. fetchMarketLeverageTiers be (requests cl) symb = Inr (TierList (t # ts)) \<longrightarrow>
              ?a = min lev (case maxLeverage t of
                              None \<Rightarrow> 1
                            | Some v \<Rightarrow> (case py_int_of v of Inr m \<Rightarrow> m | Inl e \<Rightarrow> 1))"
    by (auto simp: max_leverage_of_def get_or_def py_int_def split: option.splits sum.splits)
  have none: "(\<exists>e. fetchMarketLeverageTiers be (requests cl) symb = Inl e)
             \<or> fetchMarketLeverageTiers be (requests cl) symb = Inr NotTierList
             \<or> fetchMarketLeverageTiers be (requests cl) symb = Inr (TierList []) \<longrightarrow>
            ?a = min lev 1"
    by (auto simp: max_leverage_of_def)
  from run tiers none
  show "\<exists>a. set_leverage be cl symb lev mode
            = (Inr a, cl\<lparr>calls := calls cl @ [SetMarginMode mode symb, SetLeverage a symb],
                         requests := requests cl + 3\<rparr>)
        \<and> (\<forall>t ts. fetchMarketLeverageTiers be (requests cl) symb = Inr (TierList (t # ts)) \<longrightarrow>
              a = min lev (case maxLeverage t of
                             None \<Rightarrow> 1
                           | Some v \<Rightarrow> (case py_int_of v of Inr m \<Rightarrow> m | Inl e \<Rightarrow> 1)))
        \<and> ((\<exists>e. fetchMarketLeverageTiers be (requests cl) symb = Inl e)
             \<or> fetchMarketLeverageTiers be (requests cl) symb = Inr NotTierList
             \<or> fetchMarketLeverageTiers be (requests cl) symb = Inr (TierList []) \<longrightarrow>
            a = min lev 1)"
    by (intro exI [of _ ?a] conjI)
next
  fix now order result cl'
  assume co: "create_order be now cl order = (Inr result, cl')"
    and s: "op_symbol order = symb" and l: "order_leverage order = lev"
    and m: "op_margin_mode order = mode"
  from create_order_sizing [OF co] show "\<exists>req mi lastp cl1 cl4 a.
             get_market_info be now cl symb = (Some mi, cl1)
           \<and> last_price mi = Some lastp
           \<and> a = min lev (max_leverage_of (fetchMarketLeverageTiers be (requests cl1) symb))
           \<and> calls cl' = calls cl @
               [SetMarginMode mode symb, SetLeverage a symb, CreateOrder req]
           \<and> requests cl4 = requests cl1 + 4 \<and> market_cache cl4 = market_cache cl1
           \<and> rq_amount req = format_amount be cl4 symb
                (op_amount order
                 * of_int (min a (max_leverage_of
                                    (fetchMarketLeverageTiers be (requests cl1 + 3) symb)))
                 / use_price_of order lastp)
           \<and> executed_amount result = Some (rq_amount req)"
    unfolding s l m .
qed

theorem set_leverage_caps_at_reported_maximum_witness:
  "set_leverage test_backend empty_client ''BTCUSDT'' 125 ''cross''
     = (Inr 100, empty_client\<lparr>calls := [SetMarginMode ''cross'' ''BTCUSDT'',
                                          SetLeverage 100 ''BTCUSDT''],
                               requests := 3\<rparr>)
   \<and> (\<exists>req. calls (snd (create_order test_backend 1000 empty_client limit_order_125))
           = [SetMarginMode ''cross'' ''BTCUSDT'', SetLeverage 100 ''BTCUSDT'', CreateOrder req]
       \<and> rq_amount req = 100 * 100 / 50000)"
proof -
  note inst = set_leverage_caps_at_reported_maximum
    [where be = test_backend and cl = empty_client and mode = "''cross''"
       and symb = "''BTCUSDT''" and lev = 125]
  have mm: "setMarginMode test_backend (requests empty_client + 1) ''cross'' ''BTCUSDT'' = Inr ()"
    by (simp add: test_backend_def)
  have sl: "setLeverage test_backend (requests empty_client + 2)
              (min 125 (max_leverage_of
                          (fetchMarketLeverageTiers test_backend (requests empty_client)
                             ''BTCUSDT'')))
              ''BTCUSDT'' = Inr ()"
    by (simp add: test_backend_def)
  have fetch: "fetchMarketLeverageTiers test_backend (requests empty_client) ''BTCUSDT''
     = Inr (TierList (\<lparr>maxLeverage = Some (Num 100)\<rparr> # [\<lparr>maxLeverage = Some (Num 50)\<rparr>]))"
    by (simp add: test_backend_def)
  from inst [THEN conjunct1, rule_format, OF mm sl] obtain a where
    run: "set_leverage test_backend empty_client ''BTCUSDT'' 125 ''cross''
          = (Inr a, empty_client\<lparr>calls := calls empty_client @
                                     [SetMarginMode ''cross'' ''BTCUSDT'', SetLeverage a ''BTCUSDT''],
                                   requests := requests empty_client + 3\<rparr>)"
    and tiers: "\<forall>t ts. fetchMarketLeverageTiers test_backend (requests empty_client) ''BTCUSDT''
                        = Inr (TierList (t # ts)) \<longrightarrow>
              a = min 125 (case maxLeverage t of
                             None \<Rightarrow> 1
                           | Some v \<Rightarrow> (case py_int_of v of Inr m \<Rightarrow> m | Inl e \<Rightarrow> 1))"
    by blast
  from tiers [rule_format, OF fetch] have a: "a = 100"
    by (simp add: py_int_def)
  from run have first: "set_leverage test_backend empty_client ''BTCUSDT'' 125 ''cross''
     = (Inr 100, empty_client\<lparr>calls := [SetMarginMode ''cross'' ''BTCUSDT'',
                                          SetLeverage 100 ''BTCUSDT''],
                               requests := 3\<rparr>)"
    by (simp add: a empty_client_def)
  have ord: "op_symbol limit_order_125 = ''BTCUSDT''" "order_leverage limit_order_125 = 125"
    "op_margin_mode limit_order_125 = ''cross''" "op_amount limit_order_125 = 100"
    by (simp_all add: limit_order_125_def order_leverage_def)
  from inst [THEN conjunct2, rule_format, OF create_order_125 ord(1) ord(2) ord(3)]
  obtain req mi lastp cl1 cl4 b where
    mi: "get_market_info test_backend 1000 empty_client ''BTCUSDT'' = (Some mi, cl1)" and
    lp: "last_price mi = Some lastp" and
    b: "b = min 125 (max_leverage_of
                       (fetchMarketLeverageTiers test_backend (requests cl1) ''BTCUSDT''))" and
    cs: "calls (snd (create_order test_backend 1000 empty_client limit_order_125))
         = calls empty_client @
           [SetMarginMode ''cross'' ''BTCUSDT'', SetLeverage b ''BTCUSDT'', CreateOrder req]" and
    r4: "requests cl4 = requests cl1 + 4" and
    m4: "market_cache cl4 = market_cache cl1" and
    amt: "rq_amount req
          = format_amount test_backend cl4 ''BTCUSDT''
              (op_amount limit_order_125
               * of_int (min b (max_leverage_of
                                  (fetchMarketLeverageTiers test_backend (requests cl1 + 3)
                                     ''BTCUSDT'')))
               / use_price_of limit_order_125 lastp)"
    unfolding create_order_125 snd_conv by blast
  from mi have mib: "mi = btc_market" and cl1: "cl1 = market_client"
    by (simp_all add: test_market_info)
  from lp have lastp: "lastp = 50000"
    by (simp add: mib btc_market_def)
  from b have b100: "b = 100"
    by (simp add: test_max_leverage)
  have cache: "market_cache cl4 ''BTCUSDT'' = Some btc_market"
    by (simp add: m4 cl1 market_client_def)
  have fa: "format_amount test_backend cl4 ''BTCUSDT'' (1 / 5) = 1 / 5"
    by (simp add: format_amount_def cache btc_market_def format_fixed_1_5)
  have up: "use_price_of limit_order_125 50000 = 50000"
    by (simp add: limit_order_125_def use_price_of_def)
  from amt have "rq_amount req = 100 * 100 / 50000"
    by (simp add: b100 test_max_leverage ord(4) lastp up fa)
  with cs have second: "\<exists>req. calls (snd (create_order test_backend 1000 empty_client limit_order_125))
           = [SetMarginMode ''cross'' ''BTCUSDT'', SetLeverage 100 ''BTCUSDT'', CreateOrder req]
       \<and> rq_amount req = 100 * 100 / 50000"
    by (auto simp: b100 empty_client_def)
  from first second show ?thesis by blast
qed

section \<open>Properties of the exchange manager\<close>

lemmas client_defs =
  create_order_def validate_def get_market_info_def set_leverage_def
  convert_amount_to_contracts_def get_market_leverage_info_def max_leverage_of_def
  get_or_def py_or_def py_int_def float_or_zero_def format_amount_def
  format_fixed_def round_nearest_def submit_order_def order_params_def format_price_def
  order_leverage_def use_price_of_def time_of_def CACHE_DURATION_def tick_def send_def
  Let_def

lemmas manager_defs =
  execute_signal_def put_client_def binance_manager_def failed_result_def

lemmas input_defs =
  test_backend_def empty_client_def market_client_def btc_market_def zone_order_def
  two_zone_signal_def mk_zone_def mk_tp_def btc_raw_def btc_position_def

lemmas monitor_defs =
  check_dynamic_stop_loss_def modify_position_def modify_step_def protective_order_def
  proposed_stop_def more_favourable_def get_positions_def cache_key_def signal_key_def
  from_exchange_position_def put_client_def binance_manager_def

subsection \<open>Entry zones\<close>

lemma zone1_rejected:
  "create_order (rejecting_backend 100) 1000 empty_client
     (zone_order two_zone_signal (mk_zone 100 (1 / 2)))
   = (Inl (ExchangeError ''rejected''),
      market_client\<lparr>calls :=
        [SetMarginMode ''cross'' ''BTCUSDT'', SetLeverage 10 ''BTCUSDT'',
         CreateOrder \<lparr>rq_symbol = ''BTCUSDT'', rq_type = LIMIT, rq_side = BUY,
                      rq_amount = 5 / 2, rq_price = Some 100, rq_stopPrice = None,
                      rq_reduceOnly = False\<rparr>],
        requests := 6\<rparr>)"
  by (simp add: client_defs rejecting_backend_def test_backend_def empty_client_def
      market_client_def btc_market_def zone_order_def two_zone_signal_def mk_zone_def)

text \<open>
  C4. The claim: \<open>execute_signal\<close> attempts an order for every zone even when an earlier
  zone's order fails, and returns the first zone's result. \<open>create_order\<close> raises on
  every failure, and the loop of \<open>execute_signal\<close> does not catch it: with two zones and
  an exchange that rejects the order of the first, one order is attempted, the second
  zone never, and the result is the failure built by the outer handler.
\<close>

theorem failed_zone_stops_the_loop:
  "execute_signal (rejecting_backend 100) 1000 (binance_manager two_zone_signal) two_zone_signal
   = (failed_result (Raised (ExchangeError ''rejected'')),
      [zone_order two_zone_signal (mk_zone 100 (1 / 2))],
      two_zone_signal,
      put_client (binance_manager two_zone_signal) ''BINANCE''
        (market_client\<lparr>calls :=
           [SetMarginMode ''cross'' ''BTCUSDT'', SetLeverage 10 ''BTCUSDT'',
            CreateOrder \<lparr>rq_symbol = ''BTCUSDT'', rq_type = LIMIT, rq_side = BUY,
                         rq_amount = 5 / 2, rq_price = Some 100, rq_stopPrice = None,
                         rq_reduceOnly = False\<rparr>],
           requests := 6\<rparr>))
   \<and> length (fst (snd (execute_signal (rejecting_backend 100) 1000
                          (binance_manager two_zone_signal) two_zone_signal)))
       < length (entry_zones two_zone_signal)"
proof -
  have ex: "exchanges (binance_manager two_zone_signal) (exchange two_zone_signal)
            = Some empty_client"
    by (simp add: binance_manager_def two_zone_signal_def)
  have zs: "entry_zones two_zone_signal = [mk_zone 100 (1 / 2), mk_zone 99 (1 / 2)]"
    "exchange two_zone_signal = ''BINANCE''"
    by (simp_all add: two_zone_signal_def)
  have loop: "place_zones (rejecting_backend 100) 1000 empty_client two_zone_signal
                [mk_zone 100 (1 / 2), mk_zone 99 (1 / 2)]
     = (Inl (ExchangeError ''rejected''), [zone_order two_zone_signal (mk_zone 100 (1 / 2))],
        [mk_zone 100 (1 / 2), mk_zone 99 (1 / 2)],
        market_client\<lparr>calls :=
           [SetMarginMode ''cross'' ''BTCUSDT'', SetLeverage 10 ''BTCUSDT'',
            CreateOrder \<lparr>rq_symbol = ''BTCUSDT'', rq_type = LIMIT, rq_side = BUY,
                         rq_amount = 5 / 2, rq_price = Some 100, rq_stopPrice = None,
                         rq_reduceOnly = False\<rparr>],
           requests := 6\<rparr>)"
    by (simp add: zone1_rejected Let_def)
  have same: "two_zone_signal\<lparr>entry_zones := [mk_zone 100 (1 / 2), mk_zone 99 (1 / 2)]\<rparr>
              = two_zone_signal"
    by (simp add: two_zone_signal_def)
  have run: "execute_signal (rejecting_backend 100) 1000 (binance_manager two_zone_signal) two_zone_signal
   = (failed_result (Raised (ExchangeError ''rejected'')),
      [zone_order two_zone_signal (mk_zone 100 (1 / 2))],
      two_zone_signal,
      put_client (binance_manager two_zone_signal) ''BINANCE''
        (market_client\<lparr>calls :=
           [SetMarginMode ''cross'' ''BTCUSDT'', SetLeverage 10 ''BTCUSDT'',
            CreateOrder \<lparr>rq_symbol = ''BTCUSDT'', rq_type = LIMIT, rq_side = BUY,
                         rq_amount = 5 / 2, rq_price = Some 100, rq_stopPrice = None,
                         rq_reduceOnly = False\<rparr>],
           requests := 6\<rparr>))"
    unfolding execute_signal_def ex
    by (simp add: zs loop same del: place_zones.simps)
  show ?thesis
    unfolding run by (simp add: zs)
qed

lemma zone1_accepted:
  "create_order (rejecting_backend 99) 1000 empty_client
     (zone_order two_zone_signal (mk_zone 100 (1 / 2)))
   = (Inr \<lparr>success = True, res_order_id = Some ''1'', executed_price = Some 100,
           executed_amount = Some (5 / 2), error_message = None\<rparr>,
      market_client\<lparr>calls :=
        [SetMarginMode ''cross'' ''BTCUSDT'', SetLeverage 10 ''BTCUSDT'',
         CreateOrder \<lparr>rq_symbol = ''BTCUSDT'', rq_type = LIMIT, rq_side = BUY,
                      rq_amount = 5 / 2, rq_price = Some 100, rq_stopPrice = None,
                      rq_reduceOnly = False\<rparr>],
        requests := 6\<rparr>)"
  by (simp add: client_defs rejecting_backend_def input_defs)

lemma zone2_rejected:
  "create_order (rejecting_backend 99) 1000 (market_client\<lparr>calls := cs, requests := 6\<rparr>)
     (zone_order two_zone_signal (mk_zone 99 (1 / 2)))
   = (Inl (ExchangeError ''rejected''),
      market_client\<lparr>calls := cs @
        [SetMarginMode ''cross'' ''BTCUSDT'', SetLeverage 10 ''BTCUSDT'',
         CreateOrder \<lparr>rq_symbol = ''BTCUSDT'', rq_type = LIMIT, rq_side = BUY,
                      rq_amount = 2525 / 1000, rq_price = Some 99, rq_stopPrice = None,
                      rq_reduceOnly = False\<rparr>],
        requests := 11\<rparr>)"
  by (simp add: client_defs rejecting_backend_def input_defs)

text \<open>When the exchange rejects the order of the second zone instead, the result
  returned is the failure, not the successful result of the first zone.\<close>

lemma later_failure_replaces_first_result:
  "fst (execute_signal (rejecting_backend 99) 1000 (binance_manager two_zone_signal)
          two_zone_signal)
   = failed_result (Raised (ExchangeError ''rejected''))
   \<and> fst (create_order (rejecting_backend 99) 1000 empty_client
            (zone_order two_zone_signal (hd (entry_zones two_zone_signal))))
     = Inr \<lparr>success = True, res_order_id = Some ''1'', executed_price = Some 100,
            executed_amount = Some (5 / 2), error_message = None\<rparr>"
proof -
  have ex: "exchanges (binance_manager two_zone_signal) (exchange two_zone_signal)
            = Some empty_client"
    by (simp add: binance_manager_def two_zone_signal_def)
  have zs: "entry_zones two_zone_signal = [mk_zone 100 (1 / 2), mk_zone 99 (1 / 2)]"
    by (simp add: two_zone_signal_def)
  have loop: "fst (place_zones (rejecting_backend 99) 1000 empty_client two_zone_signal
                [mk_zone 100 (1 / 2), mk_zone 99 (1 / 2)])
              = Inl (ExchangeError ''rejected'')"
    by (simp add: zone1_accepted zone2_rejected Let_def)
  have "fst (execute_signal (rejecting_backend 99) 1000 (binance_manager two_zone_signal)
          two_zone_signal) = failed_result (Raised (ExchangeError ''rejected''))"
    unfolding execute_signal_def ex zs
    using loop by (auto simp del: place_zones.simps split: prod.splits sum.splits)
  then show ?thesis
    by (simp add: zs zone1_accepted)
qed

subsection \<open>Dynamic stop-loss\<close>

lemma first_pass:
  "check_dynamic_stop_loss (backend_at 106) 1000 (binance_manager trailing_signal)
     ''BINANCE'' ''BTCUSDT'' btc_position
   = \<lparr>exchanges = [''BINANCE'' \<mapsto> client_after_first_pass],
      active_signals = [''BINANCE_BTCUSDT'' \<mapsto> trailing_signal]\<rparr>"
  by (simp add: monitor_defs client_defs backend_at_def input_defs trailing_signal_def
      client_after_first_pass_def stop_request_def eval_nat_numeral)

lemma second_pass:
  "check_dynamic_stop_loss (backend_at 104) 1010
     \<lparr>exchanges = [''BINANCE'' \<mapsto> client_after_first_pass],
      active_signals = [''BINANCE_BTCUSDT'' \<mapsto> trailing_signal]\<rparr>
     ''BINANCE'' ''BTCUSDT'' btc_position
   = \<lparr>exchanges = [''BINANCE'' \<mapsto> client_after_second_pass],
      active_signals = [''BINANCE_BTCUSDT'' \<mapsto> trailing_signal]\<rparr>"
  by (simp add: monitor_defs client_defs backend_at_def input_defs trailing_signal_def
      client_after_first_pass_def client_after_second_pass_def stop_request_def
      eval_nat_numeral)

text \<open>
  C2. The claim: across passes the applied stop only tightens; after a pass at price 106
  has applied 103, a pass at price 104 does not apply a lower stop. The pass compares the
  proposed stop with \<open>signal.stop_loss\<close>, which stays at 98: the first pass sends a stop
  order at 103, the second pass (ten seconds later, the caches expired) sends a stop
  order at 102, and the signal's stop-loss is still 98.
\<close>

theorem later_pass_lowers_the_stop:
  "map_option (\<lambda>c. stop_orders (calls c))
     (exchanges (check_dynamic_stop_loss (backend_at 106) 1000
                   (binance_manager trailing_signal) ''BINANCE'' ''BTCUSDT'' btc_position)
        ''BINANCE'') = Some [103]
   \<and> map_option (\<lambda>c. stop_orders (calls c))
       (exchanges (check_dynamic_stop_loss (backend_at 104) 1010
                     (check_dynamic_stop_loss (backend_at 106) 1000
                        (binance_manager trailing_signal) ''BINANCE'' ''BTCUSDT'' btc_position)
                     ''BINANCE'' ''BTCUSDT'' btc_position)
          ''BINANCE'') = Some [103, 102]
   \<and> map_option stop_loss
       (active_signals (check_dynamic_stop_loss (backend_at 104) 1010
                     (check_dynamic_stop_loss (backend_at 106) 1000
                        (binance_manager trailing_signal) ''BINANCE'' ''BTCUSDT'' btc_position)
                     ''BINANCE'' ''BTCUSDT'' btc_position)
          ''BINANCE_BTCUSDT'') = Some (Some 98)"
  unfolding first_pass second_pass
  by (simp add: client_after_first_pass_def client_after_second_pass_def stop_request_def
      trailing_signal_def)

subsection \<open>Take-profit levels\<close>

lemma tp_loop_length:
  "tp_loop be now cl symb act pos cp i ls = (exn, tr, ls', cl') \<Longrightarrow> length ls' = length ls"
  by (induction ls arbitrary: i cl exn tr ls' cl')
     (auto simp: Let_def split: if_splits prod.splits sum.splits)

lemma tp_loop_trace:
  "tp_loop be now cl symb act pos cp i ls = (exn, tr, ls', cl') \<Longrightarrow>
   (k, order, ok) \<in> set tr \<Longrightarrow>
   i \<le> k \<and> k < i + length ls \<and> \<not> is_hit (ls ! (k - i))
   \<and> order = tp_order symb act pos (ls ! (k - i))"
proof (induction ls arbitrary: i cl exn tr ls' cl')
  case Nil
  then show ?case by simp
next
  case (Cons tp rest)
  show ?case
  proof (cases "k = i")
    case True
    with Cons.prems Cons.IH show ?thesis
      by (fastforce simp: Let_def split: if_splits prod.splits sum.splits)
  next
    case False
    with Cons.prems obtain cl0 exn0 tr0 ls0 cl0' where
      rec: "tp_loop be now cl0 symb act pos cp (Suc i) rest = (exn0, tr0, ls0, cl0')"
      and mem: "(k, order, ok) \<in> set tr0"
      by (auto simp: Let_def split: if_splits prod.splits sum.splits)
    from Cons.IH [OF rec mem] have
      "Suc i \<le> k" "k < Suc i + length rest" "\<not> is_hit (rest ! (k - Suc i))"
      "order = tp_order symb act pos (rest ! (k - Suc i))"
      by simp_all
    moreover from \<open>Suc i \<le> k\<close> have "(tp # rest) ! (k - i) = rest ! (k - Suc i)"
      by (simp add: nth_Cons' Suc_diff_le)
    ultimately show ?thesis by simp
  qed
qed

lemma tp_loop_distinct:
  "tp_loop be now cl symb act pos cp i ls = (exn, tr, ls', cl') \<Longrightarrow> distinct (map fst tr)"
proof (induction ls arbitrary: i cl exn tr ls' cl')
  case Nil
  then show ?case by simp
next
  case (Cons tp rest)
  have later: "\<And>cl0 exn0 tr0 ls0 cl0'.
      tp_loop be now cl0 symb act pos cp (Suc i) rest = (exn0, tr0, ls0, cl0') \<Longrightarrow>
      i \<notin> fst ` set tr0"
  proof
    fix cl0 exn0 tr0 ls0 cl0'
    assume rec: "tp_loop be now cl0 symb act pos cp (Suc i) rest = (exn0, tr0, ls0, cl0')"
      and "i \<in> fst ` set tr0"
    then obtain order ok where "(i, order, ok) \<in> set tr0" by force
    from tp_loop_trace [OF rec this] show False by simp
  qed
  from Cons.prems Cons.IH later show ?case
    by (auto simp: Let_def split: if_splits prod.splits sum.splits)
qed

lemma tp_loop_hit:
  "tp_loop be now cl symb act pos cp i ls = (exn, tr, ls', cl') \<Longrightarrow> j < length ls \<Longrightarrow>
   is_hit (ls' ! j) = (is_hit (ls ! j) \<or> (\<exists>order. (i + j, order, True) \<in> set tr))"
proof (induction ls arbitrary: i j cl exn tr ls' cl')
  case Nil
  then show ?case by simp
next
  case (Cons tp rest)
  have later: "\<And>cl0 exn0 tr0 ls0 cl0' order ok.
      tp_loop be now cl0 symb act pos cp (Suc i) rest = (exn0, tr0, ls0, cl0') \<Longrightarrow>
      (i, order, ok) \<notin> set tr0"
    using tp_loop_trace by fastforce
  show ?case
  proof (cases j)
    case 0
    with Cons.prems later show ?thesis
      by (auto simp: Let_def split: if_splits prod.splits sum.splits)
  next
    case (Suc j')
    with Cons.prems have j': "j' < length rest" by simp
    show ?thesis
    proof (cases "is_hit tp \<or> \<not> tp_triggered act cp tp")
      case True
      with Cons.prems obtain rest' where
        rec: "tp_loop be now cl symb act pos cp (Suc i) rest = (exn, tr, rest', cl')"
        and ls': "ls' = tp # rest'"
        by (auto simp: Let_def split: if_splits prod.splits)
      from Cons.IH [OF rec j'] show ?thesis
        by (simp add: ls' Suc)
    next
      case False
      then have nh: "\<not> is_hit tp" and trig: "tp_triggered act cp tp" by simp_all
      show ?thesis
      proof (cases "create_order be now cl (tp_order symb act pos tp)")
        case (Pair r cl1)
        show ?thesis
        proof (cases r)
          case (Inl e)
          with Cons.prems nh trig Pair show ?thesis
            by (auto simp: Let_def Suc)
        next
          case (Inr result)
          with Cons.prems nh trig Pair obtain tr0 rest' tp' where
            rec: "tp_loop be now cl1 symb act pos cp (Suc i) rest = (exn, tr0, rest', cl')"
            and tr: "tr = (i, tp_order symb act pos tp, success result) # tr0"
            and ls': "ls' = tp' # rest'"
            by (auto simp: Let_def split: prod.splits)
          from Cons.IH [OF rec j'] show ?thesis
            by (simp add: ls' tr Suc)
        qed
      qed
    qed
  qed
qed

lemma tp_loop_time:
  "tp_loop be now cl symb act pos cp i ls = (exn, tr, ls', cl') \<Longrightarrow> j < length ls \<Longrightarrow>
   \<not> is_hit (ls ! j) \<Longrightarrow> is_hit (ls' ! j) \<Longrightarrow> hit_time (ls' ! j) = Some now"
proof (induction ls arbitrary: i j cl exn tr ls' cl')
  case Nil
  then show ?case by simp
next
  case (Cons tp rest)
  show ?case
  proof (cases j)
    case 0
    with Cons.prems show ?thesis
      by (auto simp: Let_def split: if_splits prod.splits sum.splits)
  next
    case (Suc j')
    with Cons.prems Cons.IH show ?thesis
      by (auto simp: Let_def split: if_splits prod.splits sum.splits)
  qed
qed

lemma tp_loop_failed:
  assumes run: "tp_loop be now cl symb act pos cp i ls = (exn, tr, ls', cl')"
    and mem: "(k, order, False) \<in> set tr"
  shows "\<not> is_hit (ls' ! (k - i))"
proof -
  from tp_loop_trace [OF run mem] have k: "i \<le> k" "k < i + length ls"
    and nh: "\<not> is_hit (ls ! (k - i))"
    by simp_all
  then have j: "k - i < length ls" by simp
  have "\<not> (\<exists>order'. (i + (k - i), order', True) \<in> set tr)"
  proof
    assume "\<exists>order'. (i + (k - i), order', True) \<in> set tr"
    then obtain order' where m2: "(k, order', True) \<in> set tr" using k by auto
    from tp_loop_distinct [OF run] have d: "distinct (map fst tr)" .
    from mem m2 d have "(order, False) = (order', True)"
      by (meson eq_key_imp_eq_value)
    then show False by simp
  qed
  with tp_loop_hit [OF run j] nh show ?thesis by simp
qed

lemma tp_order_shape:
  "op_reduce_only (tp_order symb act pos tp) \<and> op_order_type (tp_order symb act pos tp) = MARKET
   \<and> op_amount (tp_order symb act pos tp) = pos_size pos * tp_percentage tp"
  by (simp add: tp_order_def)

lemma put_client_signals: "active_signals (put_client mgr name cl) = active_signals mgr"
  by (simp add: put_client_def)

text \<open>The close orders of a pass are handed to \<open>create_order\<close> one after the other, and
  the pass records for each what \<open>create_order\<close> reported.\<close>

lemma tp_loop_place_all:
  "tp_loop be now cl symb act pos cp i ls = (exn, tr, ls', cl') \<Longrightarrow>
   \<exists>outcomes. place_all be now cl (map (\<lambda>(k, order, ok). order) tr) = (outcomes, cl')
            \<and> map (\<lambda>(k, order, ok). ok) tr = map succeeded outcomes"
proof (induction ls arbitrary: i cl exn tr ls' cl')
  case Nil
  then show ?case by simp
next
  case (Cons tp rest)
  show ?case
  proof (cases "is_hit tp \<or> \<not> tp_triggered act cp tp")
    case True
    with Cons.prems obtain rest' where
      rec: "tp_loop be now cl symb act pos cp (Suc i) rest = (exn, tr, rest', cl')"
      by (auto simp: Let_def split: if_splits prod.splits)
    from Cons.IH [OF rec] show ?thesis .
  next
    case False
    then have nh: "\<not> is_hit tp" and trig: "tp_triggered act cp tp" by simp_all
    show ?thesis
    proof (cases "create_order be now cl (tp_order symb act pos tp)")
      case (Pair r cl1)
      show ?thesis
      proof (cases r)
        case (Inl e)
        with Cons.prems nh trig Pair have "tr = [(i, tp_order symb act pos tp, False)]"
          and "cl' = cl1"
          by (auto simp: Let_def)
        with Pair Inl show ?thesis by simp
      next
        case (Inr result)
        with Cons.prems nh trig Pair obtain tr0 rest' where
          rec: "tp_loop be now cl1 symb act pos cp (Suc i) rest = (exn, tr0, rest', cl')"
          and tr: "tr = (i, tp_order symb act pos tp, success result) # tr0"
          by (auto simp: Let_def split: prod.splits)
        from Cons.IH [OF rec] obtain outcomes where
          "place_all be now cl1 (map (\<lambda>(k, order, ok). order) tr0) = (outcomes, cl')"
          "map (\<lambda>(k, order, ok). ok) tr0 = map succeeded outcomes"
          by blast
        with Pair Inr tr show ?thesis by simp
      qed
    qed
  qed
qed

lemma check_take_profit_levels_cases:
  assumes sig: "active_signals mgr (signal_key ex symb) = Some s"
    and run: "check_take_profit_levels be now mgr ex symb pos = (mgr', tr)"
  shows "(tr = [] \<and> active_signals mgr' = active_signals mgr
          \<and> (\<forall>cl. exchanges mgr ex = Some cl \<longrightarrow>
                exchanges mgr' ex
                = Some (if take_profit_levels s = [] then cl
                        else snd (get_market_info be now cl symb))))
       \<or> (\<exists>cl cp exn ls' cl'.
             exchanges mgr ex = Some cl \<and> take_profit_levels s \<noteq> []
             \<and> tp_loop be now (snd (get_market_info be now cl symb)) symb (action s) pos cp 0
                  (take_profit_levels s)
               = (exn, tr, ls', cl')
             \<and> active_signals mgr' (signal_key ex symb) = Some (s\<lparr>take_profit_levels := ls'\<rparr>)
             \<and> exchanges mgr' ex = Some cl')"
proof (cases "exchanges mgr ex")
  case None
  with run show ?thesis
    by (simp add: check_take_profit_levels_def)
next
  case (Some cl)
  note cl = Some
  show ?thesis
  proof (cases "take_profit_levels s = []")
    case True
    with run cl sig show ?thesis
      by (simp add: check_take_profit_levels_def)
  next
    case False
    note levels = False
    obtain omi cl1 where gm: "get_market_info be now cl symb = (omi, cl1)"
      by (cases "get_market_info be now cl symb")
    have quiet: "mgr' = put_client mgr ex cl1 \<Longrightarrow> tr = [] \<Longrightarrow> ?thesis"
      by (simp add: cl levels gm put_client_def)
    show ?thesis
    proof (cases omi)
      case None
      with run cl sig levels gm have "mgr' = put_client mgr ex cl1" "tr = []"
        by (simp_all add: check_take_profit_levels_def)
      then show ?thesis by (rule quiet)
    next
      case (Some mi)
      note mi = Some
      show ?thesis
      proof (cases "last_price mi")
        case None
        with run cl sig levels gm mi have "mgr' = put_client mgr ex cl1" "tr = []"
          by (simp_all add: check_take_profit_levels_def)
        then show ?thesis by (rule quiet)
      next
        case (Some cp)
        note cp = Some
        show ?thesis
        proof (cases "cp = 0")
          case True
          with run cl sig levels gm mi cp have "mgr' = put_client mgr ex cl1" "tr = []"
            by (simp_all add: check_take_profit_levels_def)
          then show ?thesis by (rule quiet)
        next
          case False
          obtain exn tr0 ls' cl2 where
            loop: "tp_loop be now cl1 symb (action s) pos cp 0 (take_profit_levels s)
                   = (exn, tr0, ls', cl2)"
            by (cases "tp_loop be now cl1 symb (action s) pos cp 0 (take_profit_levels s)")
               auto
          with run cl sig levels gm mi cp False have
            m: "mgr' = (put_client mgr ex cl2)
                  \<lparr>active_signals :=
                     (active_signals mgr)(signal_key ex symb \<mapsto> s\<lparr>take_profit_levels := ls'\<rparr>)\<rparr>"
            and t: "tr = tr0"
            by (simp_all add: check_take_profit_levels_def)
          have "exchanges mgr ex = Some cl \<and> take_profit_levels s \<noteq> []
             \<and> tp_loop be now (snd (get_market_info be now cl symb)) symb (action s) pos cp 0
                  (take_profit_levels s)
               = (exn, tr, ls', cl2)
             \<and> active_signals mgr' (signal_key ex symb) = Some (s\<lparr>take_profit_levels := ls'\<rparr>)
             \<and> exchanges mgr' ex = Some cl2"
            by (simp add: cl levels gm loop t m put_client_def)
          then show ?thesis by blast
        qed
      qed
    qed
  qed
qed

text \<open>
  C7. In a pass of \<open>_check_take_profit_levels\<close> over the levels of a signal, every close
  order is a reduce-only MARKET order for a level that was not hit before the pass, of
  size position size times the level's percentage, and no level gets two orders. The
  orders of the pass are exactly those handed to \<open>create_order\<close>, one after the other on
  the exchange's client, and what the pass records as the success of each is what
  \<open>create_order\<close> reported for it (an exception counting as failure); the client the
  manager holds afterwards is the one these calls left. A level is hit after the pass
  exactly when it was hit before or its close order reported success, and a level newly
  hit carries the time of the pass; a level whose close order failed is still not hit
  after the pass.
\<close>

theorem take_profit_marking:
  assumes sig: "active_signals mgr (signal_key ex symb) = Some s"
    and run: "check_take_profit_levels be now mgr ex symb pos = (mgr', tr)"
  shows "\<exists>s'. active_signals mgr' (signal_key ex symb) = Some s'
       \<and> length (take_profit_levels s') = length (take_profit_levels s)
       \<and> distinct (map fst tr)
       \<and> (\<forall>k order ok. (k, order, ok) \<in> set tr \<longrightarrow>
             k < length (take_profit_levels s) \<and> \<not> is_hit (take_profit_levels s ! k)
             \<and> op_reduce_only order \<and> op_order_type order = MARKET
             \<and> op_amount order = pos_size pos * tp_percentage (take_profit_levels s ! k))
       \<and> (\<forall>cl. exchanges mgr ex = Some cl \<longrightarrow>
             (\<exists>outcomes cl'.
                 place_all be now
                   (if take_profit_levels s = [] then cl
                    else snd (get_market_info be now cl symb))
                   (map (\<lambda>(k, order, ok). order) tr) = (outcomes, cl')
               \<and> map (\<lambda>(k, order, ok). ok) tr = map succeeded outcomes
               \<and> exchanges mgr' ex = Some cl'))
       \<and> (\<forall>j < length (take_profit_levels s).
             is_hit (take_profit_levels s' ! j)
             = (is_hit (take_profit_levels s ! j) \<or> (\<exists>order. (j, order, True) \<in> set tr)))
       \<and> (\<forall>j < length (take_profit_levels s).
             \<not> is_hit (take_profit_levels s ! j) \<longrightarrow> is_hit (take_profit_levels s' ! j) \<longrightarrow>
             hit_time (take_profit_levels s' ! j) = Some now)
       \<and> (\<forall>k order. (k, order, False) \<in> set tr \<longrightarrow> \<not> is_hit (take_profit_levels s' ! k))"
proof -
  from check_take_profit_levels_cases [OF sig run]
  consider (quiet) "tr = []" "active_signals mgr' = active_signals mgr"
      "\<forall>cl. exchanges mgr ex = Some cl \<longrightarrow>
            exchanges mgr' ex
            = Some (if take_profit_levels s = [] then cl
                    else snd (get_market_info be now cl symb))"
    | (loop) cl cp exn ls' cl' where
        "exchanges mgr ex = Some cl" "take_profit_levels s \<noteq> []"
        "tp_loop be now (snd (get_market_info be now cl symb)) symb (action s) pos cp 0
           (take_profit_levels s) = (exn, tr, ls', cl')"
        "active_signals mgr' (signal_key ex symb) = Some (s\<lparr>take_profit_levels := ls'\<rparr>)"
        "exchanges mgr' ex = Some cl'"
    by blast
  then show ?thesis
  proof cases
    case quiet
    with sig show ?thesis by simp
  next
    case loop
    note l = loop(3)
    have len: "length ls' = length (take_profit_levels s)"
      using l by (rule tp_loop_length)
    have dist: "distinct (map fst tr)"
      using l by (rule tp_loop_distinct)
    have orders: "\<forall>k order ok. (k, order, ok) \<in> set tr \<longrightarrow>
             k < length (take_profit_levels s) \<and> \<not> is_hit (take_profit_levels s ! k)
             \<and> op_reduce_only order \<and> op_order_type order = MARKET
             \<and> op_amount order = pos_size pos * tp_percentage (take_profit_levels s ! k)"
    proof (intro allI impI)
      fix k order ok assume "(k, order, ok) \<in> set tr"
      from tp_loop_trace [OF l this] show "k < length (take_profit_levels s)
             \<and> \<not> is_hit (take_profit_levels s ! k)
             \<and> op_reduce_only order \<and> op_order_type order = MARKET
             \<and> op_amount order = pos_size pos * tp_percentage (take_profit_levels s ! k)"
        by (simp add: tp_order_shape)
    qed
    from tp_loop_place_all [OF l] obtain outcomes where
      pa: "place_all be now (snd (get_market_info be now cl symb))
             (map (\<lambda>(k, order, ok). order) tr) = (outcomes, cl')"
      and oks: "map (\<lambda>(k, order, ok). ok) tr = map succeeded outcomes"
      by blast
    have placed: "\<forall>c. exchanges mgr ex = Some c \<longrightarrow>
             (\<exists>outcomes cl'.
                 place_all be now
                   (if take_profit_levels s = [] then c
                    else snd (get_market_info be now c symb))
                   (map (\<lambda>(k, order, ok). order) tr) = (outcomes, cl')
               \<and> map (\<lambda>(k, order, ok). ok) tr = map succeeded outcomes
               \<and> exchanges mgr' ex = Some cl')"
    proof (intro allI impI)
      fix c assume "exchanges mgr ex = Some c"
      with loop(1) have c: "c = cl" by simp
      from pa oks loop(5) show "\<exists>outcomes cl'.
                 place_all be now
                   (if take_profit_levels s = [] then c
                    else snd (get_market_info be now c symb))
                   (map (\<lambda>(k, order, ok). order) tr) = (outcomes, cl')
               \<and> map (\<lambda>(k, order, ok). ok) tr = map succeeded outcomes
               \<and> exchanges mgr' ex = Some cl'"
        unfolding c using loop(2) by auto
    qed
    have hit: "\<forall>j < length (take_profit_levels s).
             is_hit (ls' ! j)
             = (is_hit (take_profit_levels s ! j) \<or> (\<exists>order. (j, order, True) \<in> set tr))"
      using tp_loop_hit [OF l] by simp
    have time: "\<forall>j < length (take_profit_levels s).
             \<not> is_hit (take_profit_levels s ! j) \<longrightarrow> is_hit (ls' ! j) \<longrightarrow>
             hit_time (ls' ! j) = Some now"
      using tp_loop_time [OF l] by blast
    have failed: "\<forall>k order. (k, order, False) \<in> set tr \<longrightarrow> \<not> is_hit (ls' ! k)"
      using tp_loop_failed [OF l] by fastforce
    from loop(4) len dist orders placed hit time failed show ?thesis
      by (intro exI [of _ "s\<lparr>take_profit_levels := ls'\<rparr>"]) simp
  qed
qed

lemma laddered_pass:
  "check_take_profit_levels (backend_at 125) 1000 (binance_manager laddered_signal)
     ''BINANCE'' ''BTCUSDT'' btc_position
   = (\<lparr>exchanges =
         [''BINANCE'' \<mapsto>
            empty_client
              \<lparr>market_cache := [''BTCUSDT'' \<mapsto> btc_market\<lparr>last_price := Some 125\<rparr>],
               market_cache_time := [''BTCUSDT'' \<mapsto> 1000],
               calls := [SetMarginMode ''cross'' ''BTCUSDT'', SetLeverage 50 ''BTCUSDT'',
                         CreateOrder (close_request (1 / 5))],
               requests := 6\<rparr>],
       active_signals =
         [''BINANCE_BTCUSDT'' \<mapsto>
            laddered_signal
              \<lparr>take_profit_levels :=
                 [\<lparr>tp_price = 110, tp_percentage = 4 / 10, is_hit = True, hit_time = Some 900\<rparr>,
                  \<lparr>tp_price = 120, tp_percentage = 1 / 2, is_hit = True, hit_time = Some 1000\<rparr>,
                  mk_tp 130 (1 / 10)]\<rparr>]\<rparr>,
      [(1, tp_order ''BTCUSDT'' ''OPEN_LONG'' btc_position (mk_tp 120 (1 / 2)), True)])"
  by (simp add: check_take_profit_levels_def tp_triggered_def tp_order_def monitor_defs
      client_defs backend_at_def input_defs laddered_signal_def close_request_def
      eval_nat_numeral)

theorem take_profit_marking_witness:
  "\<exists>s' outcomes cl'.
       active_signals
           (fst (check_take_profit_levels (backend_at 125) 1000
                   (binance_manager laddered_signal) ''BINANCE'' ''BTCUSDT'' btc_position))
           ''BINANCE_BTCUSDT'' = Some s'
       \<and> map is_hit (take_profit_levels s') = [True, True, False]
       \<and> map fst (snd (check_take_profit_levels (backend_at 125) 1000
                   (binance_manager laddered_signal) ''BINANCE'' ''BTCUSDT'' btc_position)) = [1]
       \<and> length (take_profit_levels s') = length (take_profit_levels laddered_signal)
       \<and> place_all (backend_at 125) 1000
           (snd (get_market_info (backend_at 125) 1000 empty_client ''BTCUSDT''))
           [tp_order ''BTCUSDT'' ''OPEN_LONG'' btc_position (mk_tp 120 (1 / 2))]
         = (outcomes, cl')
       \<and> map succeeded outcomes = [True]
       \<and> calls cl' = [SetMarginMode ''cross'' ''BTCUSDT'', SetLeverage 50 ''BTCUSDT'',
                      CreateOrder (close_request (1 / 5))]"
proof -
  have sig: "active_signals (binance_manager laddered_signal) (signal_key ''BINANCE'' ''BTCUSDT'')
             = Some laddered_signal"
    by (simp add: binance_manager_def signal_key_def)
  have ex: "exchanges (binance_manager laddered_signal) ''BINANCE'' = Some empty_client"
    by (simp add: binance_manager_def)
  have levels: "take_profit_levels laddered_signal \<noteq> []"
    by (simp add: laddered_signal_def)
  let ?r = "check_take_profit_levels (backend_at 125) 1000 (binance_manager laddered_signal)
              ''BINANCE'' ''BTCUSDT'' btc_position"
  have run: "?r = (fst ?r, snd ?r)"
    by simp
  from take_profit_marking [OF sig run]
  obtain s' where
    a: "active_signals (fst ?r) (signal_key ''BINANCE'' ''BTCUSDT'') = Some s'"
    and len: "length (take_profit_levels s') = length (take_profit_levels laddered_signal)"
    and placed: "\<forall>cl. exchanges (binance_manager laddered_signal) ''BINANCE'' = Some cl \<longrightarrow>
             (\<exists>outcomes cl'.
                 place_all (backend_at 125) 1000
                   (if take_profit_levels laddered_signal = [] then cl
                    else snd (get_market_info (backend_at 125) 1000 cl ''BTCUSDT''))
                   (map (\<lambda>(k, order, ok). order) (snd ?r)) = (outcomes, cl')
               \<and> map (\<lambda>(k, order, ok). ok) (snd ?r) = map succeeded outcomes
               \<and> exchanges (fst ?r) ''BINANCE'' = Some cl')"
    by blast
  from placed [rule_format, OF ex] obtain outcomes cl' where
    pa0: "place_all (backend_at 125) 1000
           (if take_profit_levels laddered_signal = [] then empty_client
            else snd (get_market_info (backend_at 125) 1000 empty_client ''BTCUSDT''))
           (map (\<lambda>(k, order, ok). order) (snd ?r)) = (outcomes, cl')"
    and oks0: "map (\<lambda>(k, order, ok). ok) (snd ?r) = map succeeded outcomes"
    and cl0: "exchanges (fst ?r) ''BINANCE'' = Some cl'"
    by blast
  from pa0 levels have
    pa: "place_all (backend_at 125) 1000
           (snd (get_market_info (backend_at 125) 1000 empty_client ''BTCUSDT''))
           [tp_order ''BTCUSDT'' ''OPEN_LONG'' btc_position (mk_tp 120 (1 / 2))]
         = (outcomes, cl')"
    by (simp add: laddered_pass)
  from oks0 have oks: "map succeeded outcomes = [True]"
    by (simp add: laddered_pass)
  from cl0 have cl': "cl' = empty_client
                \<lparr>market_cache := [''BTCUSDT'' \<mapsto> btc_market\<lparr>last_price := Some 125\<rparr>],
                 market_cache_time := [''BTCUSDT'' \<mapsto> 1000],
                 calls := [SetMarginMode ''cross'' ''BTCUSDT'', SetLeverage 50 ''BTCUSDT'',
                           CreateOrder (close_request (1 / 5))],
                 requests := 6\<rparr>"
    by (simp add: laddered_pass)
  from a have s': "s' = laddered_signal
              \<lparr>take_profit_levels :=
                 [\<lparr>tp_price = 110, tp_percentage = 4 / 10, is_hit = True, hit_time = Some 900\<rparr>,
                  \<lparr>tp_price = 120, tp_percentage = 1 / 2, is_hit = True, hit_time = Some 1000\<rparr>,
                  mk_tp 130 (1 / 10)]\<rparr>"
    by (simp add: laddered_pass signal_key_def)
  have hits: "map is_hit (take_profit_levels s') = [True, True, False]"
    by (simp add: s' mk_tp_def)
  have cs: "calls cl' = [SetMarginMode ''cross'' ''BTCUSDT'', SetLeverage 50 ''BTCUSDT'',
                         CreateOrder (close_request (1 / 5))]"
    by (simp add: cl')
  have tr: "map fst (snd (check_take_profit_levels (backend_at 125) 1000
                   (binance_manager laddered_signal) ''BINANCE'' ''BTCUSDT'' btc_position)) = [1]"
    by (simp add: laddered_pass)
  from a have a': "active_signals
           (fst (check_take_profit_levels (backend_at 125) 1000
                   (binance_manager laddered_signal) ''BINANCE'' ''BTCUSDT'' btc_position))
           ''BINANCE_BTCUSDT'' = Some s'"
    by (simp add: signal_key_def)
  show ?thesis
    by (intro exI [of _ s'] exI [of _ outcomes] exI [of _ cl'] conjI a' hits tr len pa oks cs)
qed

end
